theory Spec2Isabelle
  imports Complex_Main "HOL-Library.Char_ord" "HOL-Library.List_Lexorder" "HOL-Library.Product_Lexorder"
    "HOL-Library.Multiset"
begin

section \<open>Confirmation quorum (streamlit\_app.py, session state and confirmation block)\<close>

text \<open>
  The dashboard keeps two dictionaries in its session state:
  \<^verbatim>\<open>formel_bestaetigung\<close> maps the id of a calculated field to the number of
  confirmations, and \<^verbatim>\<open>ma_bestaetigt\<close> maps a subject identity (\<^verbatim>\<open>ma_id\<close>, the
  f-string of the two date parameters) to a dictionary from field ids to a flag.
  Both start empty. A calculated field is an entry of the loaded schema; the block reads
  \<^verbatim>\<open>id\<close>, \<^verbatim>\<open>confirmation_threshold\<close> (default 3) and
  \<^verbatim>\<open>needs_confirmation\<close> (default True) from it with \<^verbatim>\<open>dict.get\<close>, so the last
  two may be absent.
\<close>

record session_state =
  formel_bestaetigung :: "string \<rightharpoonup> int"
  ma_bestaetigt :: "string \<rightharpoonup> (string \<rightharpoonup> bool)"

record calc_entry =
  calc_id :: string
  calc_confirmation_threshold :: "int option"
  calc_needs_confirmation :: "bool option"

definition init_session :: session_state where
  "init_session = \<lparr>formel_bestaetigung = Map.empty, ma_bestaetigt = Map.empty\<rparr>"

text \<open>\<^verbatim>\<open>threshold = calc.get('confirmation_threshold', 3)\<close>\<close>

definition threshold_of :: "calc_entry \<Rightarrow> int" where
  "threshold_of calc = (case calc_confirmation_threshold calc of None \<Rightarrow> 3 | Some t \<Rightarrow> t)"

text \<open>\<^verbatim>\<open>calc.get('needs_confirmation', True)\<close>\<close>

definition needs_confirmation_of :: "calc_entry \<Rightarrow> bool" where
  "needs_confirmation_of calc = (case calc_needs_confirmation calc of None \<Rightarrow> True | Some b \<Rightarrow> b)"

text \<open>\<^verbatim>\<open>bestaetigt = st.session_state.formel_bestaetigung.get(calc['id'], 0)\<close>\<close>

definition bestaetigt :: "session_state \<Rightarrow> string \<Rightarrow> int" where
  "bestaetigt st k = (case formel_bestaetigung st k of None \<Rightarrow> 0 | Some n \<Rightarrow> n)"

text \<open>\<^verbatim>\<open>ma_geprueft = st.session_state.ma_bestaetigt.get(ma_id, {}).get(calc['id'], False)\<close>\<close>

definition ma_geprueft :: "session_state \<Rightarrow> string \<Rightarrow> string \<Rightarrow> bool" where
  "ma_geprueft st ma_id k =
     (case ma_bestaetigt st ma_id of
        None \<Rightarrow> False
      | Some m \<Rightarrow> (case m k of None \<Rightarrow> False | Some b \<Rightarrow> b))"

text \<open>The field counts as verified when the block shows the success badge.\<close>

definition verified :: "calc_entry \<Rightarrow> session_state \<Rightarrow> bool" where
  "verified calc st = (threshold_of calc \<le> bestaetigt st (calc_id calc))"

text \<open>
  One pass through the confirmation block for the field \<open>calc\<close> while the subject
  \<open>ma_id\<close> is loaded, with the operator pressing the confirm button whenever the block
  offers it. Where the block offers no button (badge shown, confirmation not needed,
  subject already counted) the session state stays as it is.
\<close>

definition confirm :: "calc_entry \<Rightarrow> string \<Rightarrow> session_state \<Rightarrow> session_state" where
  "confirm calc ma_id st =
     (let threshold = threshold_of calc;
          n = bestaetigt st (calc_id calc)
      in if threshold \<le> n then st
         else if needs_confirmation_of calc then
           (if \<not> ma_geprueft st ma_id (calc_id calc) \<and> n < threshold then
              st\<lparr>formel_bestaetigung := (formel_bestaetigung st)(calc_id calc \<mapsto> n + 1),
                 ma_bestaetigt := (ma_bestaetigt st)(ma_id \<mapsto>
                    (case ma_bestaetigt st ma_id of None \<Rightarrow> Map.empty | Some m \<Rightarrow> m)
                      (calc_id calc \<mapsto> True))\<rparr>
            else st)
         else st)"


section \<open>Validation engine (annotations.py, ValidationRuleImpl.validate)\<close>

text \<open>
  The values a rule is evaluated on: \<^verbatim>\<open>None\<close>, booleans, integers, finite
  floats (as the rational number they denote), strings and \<^verbatim>\<open>datetime.date\<close>
  objects. A string is the list of its code points; the two messages with an umlaut hold
  the code point 0xFC.
\<close>

datatype pydate = Date (date_year: nat) (date_month: nat) (date_day: nat)

datatype pyval = PNone | PBool bool | PInt int | PFloat rat | PStr string | PDate pydate

text \<open>Python's truth value of an object, as \<^verbatim>\<open>not value\<close> tests it.\<close>

fun truthy :: "pyval \<Rightarrow> bool" where
  "truthy PNone = False"
| "truthy (PBool b) = b"
| "truthy (PInt i) = (i \<noteq> 0)"
| "truthy (PFloat r) = (r \<noteq> 0)"
| "truthy (PStr s) = (s \<noteq> [])"
| "truthy (PDate d) = True"

text \<open>Dates compare as their (year, month, day) triples, lexicographically.\<close>

definition date_key :: "pydate \<Rightarrow> nat \<times> nat \<times> nat" where
  "date_key d = (date_year d, date_month d, date_day d)"

definition date_lt :: "pydate \<Rightarrow> pydate \<Rightarrow> bool" where
  "date_lt a b = (date_key a < date_key b)"

definition date_ge :: "pydate \<Rightarrow> pydate \<Rightarrow> bool" where
  "date_ge a b = (date_key b \<le> date_key a)"

text \<open>
  \<^verbatim>\<open>date.fromisoformat\<close> as Python 3.7 to 3.10 define it: the format
  \<^verbatim>\<open>YYYY-MM-DD\<close> only, that is, ten characters, ASCII digits around two hyphens, a
  year from 1, a month from 1 to 12 and a day the month has. \<open>None\<close> stands for the
  \<^verbatim>\<open>ValueError\<close> raised on a string that is not accepted. Later versions of
  Python accept further ISO 8601 formats, so \<^verbatim>\<open>validate\<close> below takes the parser
  from its environment, and this one is the parser of the sample environment.
\<close>

definition digit_val :: "char \<Rightarrow> nat option" where
  "digit_val c = (let n = (of_char c :: nat) in if 48 \<le> n \<and> n \<le> 57 then Some (n - 48) else None)"

fun digits_val :: "nat \<Rightarrow> string \<Rightarrow> nat option" where
  "digits_val acc [] = Some acc"
| "digits_val acc (c # cs) =
     (case digit_val c of None \<Rightarrow> None | Some n \<Rightarrow> digits_val (10 * acc + n) cs)"

definition is_leap :: "nat \<Rightarrow> bool" where
  "is_leap y = (y mod 4 = 0 \<and> (y mod 100 \<noteq> 0 \<or> y mod 400 = 0))"

definition days_in_month :: "nat \<Rightarrow> nat \<Rightarrow> nat" where
  "days_in_month y m =
     (if m = 2 then (if is_leap y then 29 else 28)
      else if m = 4 \<or> m = 6 \<or> m = 9 \<or> m = 11 then 30 else 31)"

definition fromisoformat_py310 :: "string \<Rightarrow> pydate option" where
  "fromisoformat_py310 s =
     (if length s = 10 \<and> s ! 4 = CHR ''-'' \<and> s ! 7 = CHR ''-'' then
        (case digits_val 0 (take 4 s) of
           None \<Rightarrow> None
         | Some y \<Rightarrow>
            (case digits_val 0 (take 2 (drop 5 s)) of
               None \<Rightarrow> None
             | Some m \<Rightarrow>
                (case digits_val 0 (drop 8 s) of
                   None \<Rightarrow> None
                 | Some d \<Rightarrow>
                    if 1 \<le> y \<and> 1 \<le> m \<and> m \<le> 12 \<and> 1 \<le> d \<and> d \<le> days_in_month y m
                    then Some (Date y m d) else None)))
      else None)"

text \<open>
  Python's \<^verbatim>\<open><\<close> and \<^verbatim>\<open>>=\<close> on these values: dates with dates, strings with
  strings, booleans, integers and floats with each other as numbers; every other pair raises
  \<^verbatim>\<open>TypeError\<close>, which is \<open>None\<close> here.
\<close>

fun num_of :: "pyval \<Rightarrow> rat option" where
  "num_of (PBool b) = Some (if b then 1 else 0)"
| "num_of (PInt i) = Some (of_int i)"
| "num_of (PFloat r) = Some r"
| "num_of v = None"

fun py_lt :: "pyval \<Rightarrow> pyval \<Rightarrow> bool option" where
  "py_lt (PDate a) (PDate b) = Some (date_lt a b)"
| "py_lt (PStr a) (PStr b) = Some (a < b)"
| "py_lt a b =
     (case num_of a of None \<Rightarrow> None
      | Some x \<Rightarrow> (case num_of b of None \<Rightarrow> None | Some y \<Rightarrow> Some (x < y)))"

fun py_ge :: "pyval \<Rightarrow> pyval \<Rightarrow> bool option" where
  "py_ge (PDate a) (PDate b) = Some (date_ge a b)"
| "py_ge (PStr a) (PStr b) = Some (b \<le> a)"
| "py_ge a b =
     (case num_of a of None \<Rightarrow> None
      | Some x \<Rightarrow> (case num_of b of None \<Rightarrow> None | Some y \<Rightarrow> Some (y \<le> x)))"

text \<open>
  What \<^verbatim>\<open>validate\<close> reads from outside the repository: the current date
  (\<^verbatim>\<open>date.today()\<close>), the parser \<^verbatim>\<open>date.fromisoformat\<close> of the running
  Python version (\<open>None\<close> when it raises), and the built-in \<^verbatim>\<open>float\<close>, taken as
  the outcome of \<^verbatim>\<open>float(value) > 0\<close> (\<open>None\<close> when the conversion raises).
\<close>

record validation_env =
  today :: pydate
  fromisoformat :: "string \<Rightarrow> pydate option"
  float_gt_zero :: "pyval \<Rightarrow> bool option"

text \<open>
  \<^verbatim>\<open>d = date.fromisoformat(value) if isinstance(value, str) else value\<close>;
  \<open>None\<close> when \<^verbatim>\<open>fromisoformat\<close> raises.
\<close>

fun to_date_operand :: "validation_env \<Rightarrow> pyval \<Rightarrow> pyval option" where
  "to_date_operand env (PStr s) =
     (case fromisoformat env s of None \<Rightarrow> None | Some d \<Rightarrow> Some (PDate d))"
| "to_date_operand env v = Some v"

definition msg_required :: string where
  "msg_required = ''Dieses Feld ist erforderlich''"

definition msg_not_past :: string where
  "msg_not_past = ''Datum muss in der Vergangenheit liegen''"

definition msg_invalid_date :: string where
  "msg_invalid_date = ''Ung'' @ [CHR 0xFC] @ ''ltiges Datum''"

definition msg_not_after :: string where
  "msg_not_after = ''Austrittsdatum muss nach Eintrittsdatum liegen''"

definition msg_not_positive :: string where
  "msg_not_positive = ''Wert muss positiv sein''"

definition msg_invalid_number :: string where
  "msg_invalid_number = ''Ung'' @ [CHR 0xFC] @ ''ltige Zahl''"

text \<open>\<^verbatim>\<open>return (valid, message if not valid else "")\<close>\<close>

definition outcome :: "bool \<Rightarrow> string \<Rightarrow> bool \<times> string" where
  "outcome valid msg = (valid, if valid then [] else msg)"

text \<open>
  \<^verbatim>\<open>validate(rule, value, context=None)\<close>. The context is optional, and
  \<^verbatim>\<open>context or {}\<close> turns a missing one into the empty dictionary. The bare
  \<^verbatim>\<open>except\<close> of each \<^verbatim>\<open>try\<close> block catches the parse error and the
  \<^verbatim>\<open>TypeError\<close> of a comparison alike.
\<close>

definition validate ::
  "validation_env \<Rightarrow> string \<Rightarrow> pyval \<Rightarrow> (string \<rightharpoonup> pyval) option \<Rightarrow> bool \<times> string" where
  "validate env rule val context =
     (let ctx = (case context of None \<Rightarrow> Map.empty | Some c \<Rightarrow> c) in
      if rule = ''required'' then
        outcome (val \<noteq> PNone \<and> val \<noteq> PStr []) msg_required
      else if rule = ''date_in_past'' then
        (if truthy val then
           (case to_date_operand env val of
              None \<Rightarrow> (False, msg_invalid_date)
            | Some d \<Rightarrow>
               (case py_lt d (PDate (today env)) of
                  None \<Rightarrow> (False, msg_invalid_date)
                | Some valid \<Rightarrow> outcome valid msg_not_past))
         else (True, []))
      else if rule = ''date_after_eintrittsdatum'' then
        (if truthy val then
           (case ctx ''eintrittsdatum'' of
              None \<Rightarrow> (True, [])
            | Some e \<Rightarrow>
               (case to_date_operand env val of
                  None \<Rightarrow> (False, msg_invalid_date)
                | Some d \<Rightarrow>
                   (case to_date_operand env e of
                      None \<Rightarrow> (False, msg_invalid_date)
                    | Some eintritt \<Rightarrow>
                       (case py_ge d eintritt of
                          None \<Rightarrow> (False, msg_invalid_date)
                        | Some valid \<Rightarrow> outcome valid msg_not_after))))
         else (True, []))
      else if rule = ''positive'' then
        (case float_gt_zero env val of
           None \<Rightarrow> (False, msg_invalid_number)
         | Some valid \<Rightarrow> outcome valid msg_not_positive)
      else (True, []))"

text \<open>
  The claims speak of a value that "parses as a date": a date object, or a string that
  \<^verbatim>\<open>date.fromisoformat\<close> accepts.
\<close>

fun parses_as_date :: "validation_env \<Rightarrow> pyval \<Rightarrow> pydate option" where
  "parses_as_date env (PDate d) = Some d"
| "parses_as_date env (PStr s) = fromisoformat env s"
| "parses_as_date env v = None"

subsection \<open>A sample environment: Python 3.10\<close>

text \<open>
  \<^verbatim>\<open>float(value) > 0\<close> as CPython computes it. A boolean or an integer converts to
  its value, an integer of magnitude \<open>2^1024 - 2^970\<close> or more raises
  \<^verbatim>\<open>OverflowError\<close>; \<^verbatim>\<open>None\<close> and a date raise \<^verbatim>\<open>TypeError\<close>. A string
  is first mapped to ASCII (a whitespace character beyond ASCII becomes a space, any other
  character beyond ASCII ends the string with a question mark), then underscores between
  digits are dropped, surrounding whitespace is stripped, and the rest must be a signed
  \<^verbatim>\<open>inf\<close>, \<^verbatim>\<open>infinity\<close> or \<^verbatim>\<open>nan\<close> in any case, or a decimal numeral
  with an optional fraction and exponent. The numeral is rounded to the nearest double,
  ties to even, so it is positive when it has no minus sign, a digit other than zero, and
  a value above \<open>2^-1075\<close>.
\<close>

definition is_space :: "char \<Rightarrow> bool" where
  "is_space c = ((9 \<le> (of_char c :: nat) \<and> (of_char c :: nat) \<le> 13) \<or> (of_char c :: nat) = 32)"

definition is_digit :: "char \<Rightarrow> bool" where
  "is_digit c = (48 \<le> (of_char c :: nat) \<and> (of_char c :: nat) \<le> 57)"

definition ascii_lower :: "char \<Rightarrow> char" where
  "ascii_lower c =
     (if 65 \<le> (of_char c :: nat) \<and> (of_char c :: nat) \<le> 90
      then char_of ((of_char c :: nat) + 32) else c)"

fun to_ascii :: "string \<Rightarrow> string" where
  "to_ascii [] = []"
| "to_ascii (c # cs) =
     (if (of_char c :: nat) < 128 then c # to_ascii cs
      else if (of_char c :: nat) = 133 \<or> (of_char c :: nat) = 160 then CHR '' '' # to_ascii cs
      else ''?'')"

fun drop_underscores :: "char \<Rightarrow> string \<Rightarrow> string option" where
  "drop_underscores prev [] = (if prev = CHR ''_'' then None else Some [])"
| "drop_underscores prev (c # cs) =
     (if c = CHR ''_'' then
        (if is_digit prev then drop_underscores c cs else None)
      else if prev = CHR ''_'' \<and> \<not> is_digit c then None
      else (case drop_underscores c cs of None \<Rightarrow> None | Some r \<Rightarrow> Some (c # r)))"

definition strip_spaces :: "string \<Rightarrow> string" where
  "strip_spaces s = rev (dropWhile is_space (rev (dropWhile is_space s)))"

fun digits_int :: "int \<Rightarrow> string \<Rightarrow> int option" where
  "digits_int acc [] = Some acc"
| "digits_int acc (c # cs) =
     (if is_digit c then digits_int (10 * acc + (of_char c - 48)) cs else None)"

text \<open>The exponent part: nothing, or \<^verbatim>\<open>e\<close>, an optional sign and at least one digit.\<close>

definition exponent_of :: "string \<Rightarrow> int option" where
  "exponent_of s =
     (case s of
        [] \<Rightarrow> Some 0
      | c # r \<Rightarrow>
         if c = CHR ''e'' \<or> c = CHR ''E'' then
           (let neg = (r \<noteq> [] \<and> hd r = CHR ''-'');
                ds = (if r \<noteq> [] \<and> (hd r = CHR ''-'' \<or> hd r = CHR ''+'') then tl r else r)
            in if ds = [] then None
               else (case digits_int 0 ds of
                       None \<Rightarrow> None
                     | Some n \<Rightarrow> Some (if neg then - n else n)))
         else None)"

text \<open>Whether an unsigned numeral denotes a number that rounds to a double above zero.\<close>

definition numeral_gt_zero :: "string \<Rightarrow> bool option" where
  "numeral_gt_zero s =
     (let ipart = takeWhile is_digit s;
          r1 = dropWhile is_digit s;
          fpart = (if r1 \<noteq> [] \<and> hd r1 = CHR ''.'' then takeWhile is_digit (tl r1) else []);
          r2 = (if r1 \<noteq> [] \<and> hd r1 = CHR ''.'' then dropWhile is_digit (tl r1) else r1)
      in if ipart = [] \<and> fpart = [] then None
         else (case exponent_of r2 of
                 None \<Rightarrow> None
               | Some e \<Rightarrow>
                  (case digits_int 0 (ipart @ fpart) of
                     None \<Rightarrow> None
                   | Some m \<Rightarrow>
                      (let ex = e - int (length fpart) in
                       Some (0 < m \<and> (if 0 \<le> ex then True
                                       else 10 ^ nat (- ex) < m * 2 ^ 1075))))))"

definition float_literal_gt_zero :: "string \<Rightarrow> bool option" where
  "float_literal_gt_zero s =
     (let neg = (s \<noteq> [] \<and> hd s = CHR ''-'');
          body = (if s \<noteq> [] \<and> (hd s = CHR ''-'' \<or> hd s = CHR ''+'') then tl s else s);
          word = map ascii_lower body
      in if word = ''inf'' \<or> word = ''infinity'' then Some (\<not> neg)
         else if word = ''nan'' then Some False
         else (case numeral_gt_zero body of
                 None \<Rightarrow> None
               | Some pos \<Rightarrow> Some (pos \<and> \<not> neg)))"

definition float_of_str_gt_zero :: "string \<Rightarrow> bool option" where
  "float_of_str_gt_zero s =
     (let a = to_ascii s in
      case (if CHR ''_'' \<in> set a then drop_underscores (CHR 0x00) a else Some a) of
        None \<Rightarrow> None
      | Some t \<Rightarrow>
         (let u = strip_spaces t in if u = [] then None else float_literal_gt_zero u))"

fun float_gt_zero_cpython :: "pyval \<Rightarrow> bool option" where
  "float_gt_zero_cpython PNone = None"
| "float_gt_zero_cpython (PBool b) = Some b"
| "float_gt_zero_cpython (PInt i) =
     (if \<bar>i\<bar> < 2 ^ 1024 - 2 ^ 970 then Some (0 < i) else None)"
| "float_gt_zero_cpython (PFloat r) = Some (0 < r)"
| "float_gt_zero_cpython (PStr s) = float_of_str_gt_zero s"
| "float_gt_zero_cpython (PDate d) = None"

definition sample_env :: validation_env where
  "sample_env =
     \<lparr>today = Date 2026 1 1, fromisoformat = fromisoformat_py310,
      float_gt_zero = float_gt_zero_cpython\<rparr>"

section \<open>Metadata registries (annotations.py)\<close>

text \<open>
  A Python dictionary keeps its keys in insertion order, and assigning to a key that is
  present replaces the value where it stands. It is modelled as an association list.
\<close>

fun dict_set :: "'k \<Rightarrow> 'v \<Rightarrow> ('k \<times> 'v) list \<Rightarrow> ('k \<times> 'v) list" where
  "dict_set k v [] = [(k, v)]"
| "dict_set k v (p # ps) = (if fst p = k then (k, v) # ps else p # dict_set k v ps)"

definition dict_get :: "('k \<times> 'v) list \<Rightarrow> 'k \<Rightarrow> 'v option" where
  "dict_get d k = map_of d k"

text \<open>
  A function or class object: its \<^verbatim>\<open>__name__\<close> and the object itself, of a type
  the model leaves open.
\<close>

record 'f pyobject =
  obj_name :: string
  obj_ref :: 'f

subsection \<open>CalculatedFieldRegistry and the decorator calculated\_field\<close>

record 'f calc_metadata =
  cm_key :: string
  cm_label :: string
  cm_formel :: string
  cm_requires :: "string list"
  cm_einheit :: string
  cm_editable :: bool
  cm_needs_confirmation :: bool
  cm_confirmation_threshold :: int
  cm_group :: string
  cm_hint :: "string option"
  cm_precision :: int
  cm_function :: "'f pyobject"
  cm_function_name :: string

type_synonym 'f calc_registry = "(string \<times> 'f calc_metadata) list"

text \<open>\<^verbatim>\<open>cls._fields[metadata['key']] = metadata\<close>\<close>

definition register :: "'f calc_metadata \<Rightarrow> 'f calc_registry \<Rightarrow> 'f calc_registry" where
  "register metadata reg = dict_set (cm_key metadata) metadata reg"

definition get_all :: "'f calc_registry \<Rightarrow> 'f calc_registry" where
  "get_all reg = reg"

text \<open>\<^verbatim>\<open>cls._fields.get(key)\<close>\<close>

definition get :: "'f calc_registry \<Rightarrow> string \<Rightarrow> 'f calc_metadata option" where
  "get reg key = dict_get reg key"

definition clear :: "'f calc_registry" where
  "clear = []"

text \<open>
  The decorator builds the metadata dictionary from its arguments and the decorated
  function, and registers it. The arguments with a default are \<^verbatim>\<open>einheit=""\<close>,
  \<^verbatim>\<open>editable=True\<close>, \<^verbatim>\<open>needs_confirmation=True\<close>,
  \<^verbatim>\<open>confirmation_threshold=3\<close>, \<^verbatim>\<open>group="berechnungen"\<close>, \<^verbatim>\<open>hint=None\<close>
  and \<^verbatim>\<open>precision=2\<close>.
\<close>

record calc_args =
  ca_key :: string
  ca_label :: string
  ca_formel :: string
  ca_requires :: "string list"
  ca_einheit :: string
  ca_editable :: bool
  ca_needs_confirmation :: bool
  ca_confirmation_threshold :: int
  ca_group :: string
  ca_hint :: "string option"
  ca_precision :: int

definition calc_args_default :: "string \<Rightarrow> string \<Rightarrow> string \<Rightarrow> string list \<Rightarrow> calc_args" where
  "calc_args_default key label formel requires =
     \<lparr>ca_key = key, ca_label = label, ca_formel = formel, ca_requires = requires,
      ca_einheit = [], ca_editable = True, ca_needs_confirmation = True,
      ca_confirmation_threshold = 3, ca_group = ''berechnungen'', ca_hint = None,
      ca_precision = 2\<rparr>"

definition decorator_metadata :: "calc_args \<Rightarrow> 'f pyobject \<Rightarrow> 'f calc_metadata" where
  "decorator_metadata a func =
     \<lparr>cm_key = ca_key a, cm_label = ca_label a, cm_formel = ca_formel a,
      cm_requires = ca_requires a, cm_einheit = ca_einheit a, cm_editable = ca_editable a,
      cm_needs_confirmation = ca_needs_confirmation a,
      cm_confirmation_threshold = ca_confirmation_threshold a, cm_group = ca_group a,
      cm_hint = ca_hint a, cm_precision = ca_precision a, cm_function = func,
      cm_function_name = obj_name func\<rparr>"

definition calculated_field ::
  "calc_args \<Rightarrow> 'f pyobject \<Rightarrow> 'f calc_registry \<Rightarrow> 'f calc_registry" where
  "calculated_field a func reg = register (decorator_metadata a func) reg"

subsection \<open>WorkflowStepRegistry and the decorator workflow\_step\<close>

record ('c, 'p) step_def =
  sd_order :: int
  sd_title :: string
  sd_description :: "string option"
  sd_groups :: "string list"
  sd_show_if :: "'p pyobject option"
  sd_component_type :: string
  sd_class :: "'c pyobject"
  sd_class_name :: string

type_synonym ('c, 'p) step_registry = "('c, 'p) step_def list"

text \<open>
  \<^verbatim>\<open>cls._steps.append(step_def); cls._steps.sort(key=lambda x: x['order'])\<close>.
  Python's \<^verbatim>\<open>list.sort\<close> is stable, as the insertion sort \<open>sort_key\<close> is.
\<close>

definition register_step ::
  "('c, 'p) step_def \<Rightarrow> ('c, 'p) step_registry \<Rightarrow> ('c, 'p) step_registry" where
  "register_step step steps = sort_key sd_order (steps @ [step])"

definition clear_steps :: "('c, 'p) step_registry" where
  "clear_steps = []"

text \<open>A sequence of registrations, first to last.\<close>

fun register_steps ::
  "('c, 'p) step_def list \<Rightarrow> ('c, 'p) step_registry \<Rightarrow> ('c, 'p) step_registry" where
  "register_steps [] steps = steps"
| "register_steps (x # xs) steps = register_steps xs (register_step x steps)"

text \<open>
  The decorator: \<^verbatim>\<open>groups or []\<close> turns a missing list of groups into the empty
  list; \<^verbatim>\<open>description\<close> and \<^verbatim>\<open>show_if\<close> default to \<^verbatim>\<open>None\<close> and
  \<^verbatim>\<open>component_type\<close> to \<^verbatim>\<open>"form"\<close>.
\<close>

definition workflow_step ::
  "int \<Rightarrow> string \<Rightarrow> string option \<Rightarrow> string list option \<Rightarrow> 'p pyobject option \<Rightarrow> string
     \<Rightarrow> 'c pyobject \<Rightarrow> ('c, 'p) step_registry \<Rightarrow> ('c, 'p) step_registry" where
  "workflow_step ord title description groups show_if component_type cls steps =
     register_step
       \<lparr>sd_order = ord, sd_title = title, sd_description = description,
        sd_groups = (case groups of None \<Rightarrow> [] | Some g \<Rightarrow> g), sd_show_if = show_if,
        sd_component_type = component_type, sd_class = cls, sd_class_name = obj_name cls\<rparr>
       steps"

section \<open>Field metadata (annotations.py, ui\_field)\<close>

text \<open>
  \<^verbatim>\<open>ui_field\<close> turns its keyword arguments into the metadata dictionary of a
  dataclass field: every argument that is not \<^verbatim>\<open>None\<close> is stored under its
  \<^verbatim>\<open>ui_\<close> key, the others leave no key. An argument is \<open>None\<close> or a value of
  the type the signature declares; a metadata entry is \<open>None\<close> when the key is absent.
  The arguments \<^verbatim>\<open>group\<close>, \<^verbatim>\<open>order\<close> and \<^verbatim>\<open>width\<close> default to
  \<^verbatim>\<open>"default"\<close>, 0 and \<^verbatim>\<open>"full"\<close>, all others to \<^verbatim>\<open>None\<close>.
\<close>

datatype validation_arg = VStr string | VList "string list"

record ui_args =
  arg_label :: "string option"
  arg_typ :: "string option"
  arg_required :: "bool option"
  arg_hint :: "string option"
  arg_placeholder :: "string option"
  arg_group :: "string option"
  arg_order :: "int option"
  arg_validation :: "validation_arg option"
  arg_min_value :: "rat option"
  arg_max_value :: "rat option"
  arg_depends_on :: "string option"
  arg_show_when :: "string option"
  arg_options :: "(string \<times> string) list option"
  arg_width :: "string option"
  arg_css_class :: "string option"

definition ui_args_default :: ui_args where
  "ui_args_default =
     \<lparr>arg_label = None, arg_typ = None, arg_required = None, arg_hint = None,
      arg_placeholder = None, arg_group = Some ''default'', arg_order = Some 0,
      arg_validation = None, arg_min_value = None, arg_max_value = None,
      arg_depends_on = None, arg_show_when = None, arg_options = None,
      arg_width = Some ''full'', arg_css_class = None\<rparr>"

record ui_metadata =
  ui_label :: "string option"
  ui_type :: "string option"
  ui_required :: "bool option"
  ui_hint :: "string option"
  ui_placeholder :: "string option"
  ui_group :: "string option"
  ui_order :: "int option"
  ui_validation :: "string list option"
  ui_min :: "rat option"
  ui_max :: "rat option"
  ui_depends_on :: "string option"
  ui_show_when :: "string option"
  ui_options :: "(string \<times> string) list option"
  ui_width :: "string option"
  ui_class :: "string option"

text \<open>\<^verbatim>\<open>validation if isinstance(validation, list) else [validation]\<close>\<close>

fun validation_list :: "validation_arg \<Rightarrow> string list" where
  "validation_list (VList rules) = rules"
| "validation_list (VStr rule) = [rule]"

definition ui_field :: "ui_args \<Rightarrow> ui_metadata" where
  "ui_field a =
     \<lparr>ui_label = arg_label a, ui_type = arg_typ a, ui_required = arg_required a,
      ui_hint = arg_hint a, ui_placeholder = arg_placeholder a, ui_group = arg_group a,
      ui_order = arg_order a,
      ui_validation = (case arg_validation a of None \<Rightarrow> None | Some v \<Rightarrow> Some (validation_list v)),
      ui_min = arg_min_value a, ui_max = arg_max_value a,
      ui_depends_on = arg_depends_on a, ui_show_when = arg_show_when a,
      ui_options = arg_options a, ui_width = arg_width a, ui_class = arg_css_class a\<rparr>"

text \<open>The empty metadata of a field declared without \<^verbatim>\<open>ui_field\<close>.\<close>

definition no_metadata :: ui_metadata where
  "no_metadata =
     \<lparr>ui_label = None, ui_type = None, ui_required = None, ui_hint = None,
      ui_placeholder = None, ui_group = None, ui_order = None, ui_validation = None,
      ui_min = None, ui_max = None, ui_depends_on = None, ui_show_when = None,
      ui_options = None, ui_width = None, ui_class = None\<rparr>"

section \<open>Form generator (enhanced\_form\_generator.py)\<close>

text \<open>
  A type object: the classes of the generator's type map, \<^verbatim>\<open>NoneType\<close>, a
  \<^verbatim>\<open>typing.Union\<close> with its arguments (\<^verbatim>\<open>Optional[X]\<close> is
  \<^verbatim>\<open>Union[X, None]\<close>), a \<^verbatim>\<open>types.UnionType\<close> with its arguments (what
  \<^verbatim>\<open>X | None\<close> builds in Python 3.10 to 3.13, whose origin is not
  \<^verbatim>\<open>typing.Union\<close>; from Python 3.14 the same expression builds a
  \<^verbatim>\<open>typing.Union\<close>), or any other type, by name.
\<close>

datatype pytype = TStr | TInt | TFloat | TBool | TDate | TNoneType
  | TUnion "pytype list" | TUnionType "pytype list" | TOther string

text \<open>
  The attribute \<^verbatim>\<open>type\<close> of a dataclass field holds the annotation as the class
  body gave it: a type object, or the source text of the annotation when the module
  postpones the evaluation of annotations (\<^verbatim>\<open>from __future__ import annotations\<close>).
\<close>

datatype annotation = TypeObject pytype | AnnotationString string

record field_obj =
  f_name :: string
  f_type :: annotation
  f_metadata :: ui_metadata

text \<open>
  A dataclass: its \<^verbatim>\<open>__name__\<close>, its \<^verbatim>\<open>__doc__\<close>, its fields, and the
  namespace of its module as far as annotations need it: the type object an annotation
  string evaluates to, \<open>None\<close> when the evaluation raises.
\<close>

record dataclass =
  dc_name :: string
  dc_doc :: "string option"
  dc_fields :: "field_obj list"
  dc_namespace :: "string \<Rightarrow> pytype option"

datatype py_error = AnnotationError string

text \<open>
  \<^verbatim>\<open>typing.get_type_hints\<close>: each field name with its type, an annotation string
  evaluated in the namespace of the class; the call raises when an evaluation does.
\<close>

fun resolve_hints ::
  "(string \<Rightarrow> pytype option) \<Rightarrow> field_obj list \<Rightarrow> py_error + (string \<times> pytype) list" where
  "resolve_hints ns [] = Inr []"
| "resolve_hints ns (f # fs) =
     (case (case f_type f of TypeObject t \<Rightarrow> Some t | AnnotationString a \<Rightarrow> ns a) of
        None \<Rightarrow> Inl (AnnotationError (f_name f))
      | Some t \<Rightarrow>
         (case resolve_hints ns fs of
            Inl e \<Rightarrow> Inl e
          | Inr hints \<Rightarrow> Inr ((f_name f, t) # hints)))"

definition get_type_hints :: "dataclass \<Rightarrow> py_error + (string \<rightharpoonup> pytype)" where
  "get_type_hints dc =
     (case resolve_hints (dc_namespace dc) (dc_fields dc) of
        Inl e \<Rightarrow> Inl e
      | Inr hints \<Rightarrow> Inr (map_of hints))"

text \<open>
  The generator object: the dataclass, the configuration (the items of its
  \<^verbatim>\<open>__dict__\<close>, or \<open>None\<close> when no configuration object is given) and the type
  hints. The constructor refuses an argument that is not a dataclass; here the type of
  the argument says so. It raises what \<^verbatim>\<open>get_type_hints\<close> raises.
\<close>

record generator =
  input_dataclass :: dataclass
  config :: "(string \<times> pyval) list option"
  type_hints :: "string \<rightharpoonup> pytype"

definition init_generator ::
  "dataclass \<Rightarrow> (string \<times> pyval) list option \<Rightarrow> py_error + generator" where
  "init_generator dc cfg =
     (case get_type_hints dc of
        Inl e \<Rightarrow> Inl e
      | Inr hints \<Rightarrow> Inr \<lparr>input_dataclass = dc, config = cfg, type_hints = hints\<rparr>)"

text \<open>\<^verbatim>\<open>next((arg for arg in args if arg is not type(None)), str)\<close>\<close>

fun first_non_none :: "pytype list \<Rightarrow> pytype" where
  "first_non_none [] = TStr"
| "first_non_none (a # as) = (if a \<noteq> TNoneType then a else first_non_none as)"

fun type_map :: "pytype \<Rightarrow> string option" where
  "type_map TStr = Some ''text''"
| "type_map TInt = Some ''number''"
| "type_map TFloat = Some ''number''"
| "type_map TBool = Some ''checkbox''"
| "type_map TDate = Some ''date''"
| "type_map t = None"

text \<open>
  \<^verbatim>\<open>_infer_ui_type\<close> is called on the field's \<^verbatim>\<open>type\<close> attribute. Only a
  \<^verbatim>\<open>typing.Union\<close> has the origin \<^verbatim>\<open>Union\<close> and is unwrapped; an annotation
  string has no origin and is no key of the type map.
\<close>

fun infer_ui_type :: "annotation \<Rightarrow> string" where
  "infer_ui_type (AnnotationString a) = ''text''"
| "infer_ui_type (TypeObject python_type) =
     (let t = (case python_type of TUnion args \<Rightarrow> first_non_none args | _ \<Rightarrow> python_type)
      in case type_map t of None \<Rightarrow> ''text'' | Some u \<Rightarrow> u)"

text \<open>
  \<^verbatim>\<open>field_name.replace('_', ' ').title()\<close>. \<^verbatim>\<open>str.title\<close> maps a character
  that follows a cased character to lower case and any other character to title case.
  The case properties and mappings are written out for the code points below 0x100, the
  ones a string of this model holds: the ASCII letters, the letters from 0xC0 to 0xFF
  other than the multiplication and division signs, the sharp s (title case
  \<^verbatim>\<open>Ss\<close>), and the lower-case characters 0xAA, 0xB5 and 0xBA. The title-case
  letters of 0xB5 and 0xFF lie beyond 0xFF, so these two characters are left as they are.
\<close>

definition is_lower :: "char \<Rightarrow> bool" where
  "is_lower c =
     (let n = (of_char c :: nat) in
      (97 \<le> n \<and> n \<le> 122) \<or> n = 170 \<or> n = 181 \<or> n = 186
      \<or> (223 \<le> n \<and> n \<le> 246) \<or> (248 \<le> n \<and> n \<le> 255))"

definition is_upper :: "char \<Rightarrow> bool" where
  "is_upper c =
     (let n = (of_char c :: nat) in
      (65 \<le> n \<and> n \<le> 90) \<or> (192 \<le> n \<and> n \<le> 214) \<or> (216 \<le> n \<and> n \<le> 222))"

definition is_cased :: "char \<Rightarrow> bool" where
  "is_cased c = (is_lower c \<or> is_upper c)"

definition to_lower :: "char \<Rightarrow> char" where
  "to_lower c = (if is_upper c then char_of ((of_char c :: nat) + 32) else c)"

definition to_title :: "char \<Rightarrow> string" where
  "to_title c =
     (let n = (of_char c :: nat) in
      if n = 223 then ''Ss''
      else if (97 \<le> n \<and> n \<le> 122) \<or> (224 \<le> n \<and> n \<le> 246) \<or> (248 \<le> n \<and> n \<le> 254)
      then [char_of (n - 32)]
      else [c])"

fun title_from :: "bool \<Rightarrow> string \<Rightarrow> string" where
  "title_from previous_is_cased [] = []"
| "title_from previous_is_cased (c # cs) =
     (if previous_is_cased then [to_lower c] else to_title c) @ title_from (is_cased c) cs"

definition title :: "string \<Rightarrow> string" where
  "title s = title_from False s"

definition replace_underscores :: "string \<Rightarrow> string" where
  "replace_underscores s = map (\<lambda>c. if c = CHR ''_'' then CHR '' '' else c) s"

definition infer_label :: "string \<Rightarrow> string" where
  "infer_label field_name = title (replace_underscores field_name)"

text \<open>
  \<^verbatim>\<open>_is_required\<close> reads the type hints: a field is required unless its hint is a
  \<^verbatim>\<open>typing.Union\<close> with \<^verbatim>\<open>NoneType\<close> among its arguments.
\<close>

definition is_required :: "generator \<Rightarrow> string \<Rightarrow> bool" where
  "is_required g field_name =
     (case type_hints g field_name of
        None \<Rightarrow> True
      | Some (TUnion args) \<Rightarrow> TNoneType \<notin> set args
      | Some _ \<Rightarrow> True)"

text \<open>
  A field definition after the removal of the \<^verbatim>\<open>None\<close> values: an entry that is
  \<open>None\<close> here is a key the dictionary does not have. The keys \<^verbatim>\<open>id\<close>,
  \<^verbatim>\<open>field_type\<close>, \<^verbatim>\<open>label\<close>, \<^verbatim>\<open>type\<close>, \<^verbatim>\<open>required\<close>,
  \<^verbatim>\<open>group\<close>, \<^verbatim>\<open>order\<close>, \<^verbatim>\<open>validation\<close> and \<^verbatim>\<open>width\<close> always
  have a value.
\<close>

record field_def =
  fd_id :: string
  fd_field_type :: string
  fd_label :: string
  fd_type :: string
  fd_required :: bool
  fd_hint :: "string option"
  fd_placeholder :: "string option"
  fd_group :: string
  fd_order :: int
  fd_validation :: "string list"
  fd_min_value :: "rat option"
  fd_max_value :: "rat option"
  fd_depends_on :: "string option"
  fd_show_when :: "string option"
  fd_options :: "(string \<times> string) list option"
  fd_width :: string
  fd_css_class :: "string option"

text \<open>\<^verbatim>\<open>metadata.get(key) or fallback\<close>: an absent key and an empty string both give the fallback.\<close>

definition get_or :: "string option \<Rightarrow> string \<Rightarrow> string" where
  "get_or v fallback = (case v of None \<Rightarrow> fallback | Some x \<Rightarrow> if x \<noteq> [] then x else fallback)"

text \<open>\<^verbatim>\<open>metadata.get(key, default)\<close>\<close>

definition get_default :: "'a option \<Rightarrow> 'a \<Rightarrow> 'a" where
  "get_default v d = (case v of None \<Rightarrow> d | Some x \<Rightarrow> x)"

text \<open>The body of the loop of \<^verbatim>\<open>extract_input_fields\<close>, for one field of the dataclass.\<close>

definition field_def_of :: "generator \<Rightarrow> field_obj \<Rightarrow> field_def" where
  "field_def_of g field_obj =
     (let field_name = f_name field_obj; metadata = f_metadata field_obj in
      \<lparr>fd_id = field_name,
       fd_field_type = ''input'',
       fd_label = get_or (ui_label metadata) (infer_label field_name),
       fd_type = get_or (ui_type metadata) (infer_ui_type (f_type field_obj)),
       fd_required = get_default (ui_required metadata) (is_required g field_name),
       fd_hint = ui_hint metadata,
       fd_placeholder = ui_placeholder metadata,
       fd_group = get_default (ui_group metadata) ''default'',
       fd_order = get_default (ui_order metadata) 0,
       fd_validation = get_default (ui_validation metadata) [],
       fd_min_value = ui_min metadata,
       fd_max_value = ui_max metadata,
       fd_depends_on = ui_depends_on metadata,
       fd_show_when = ui_show_when metadata,
       fd_options = ui_options metadata,
       fd_width = get_default (ui_width metadata) ''full'',
       fd_css_class = ui_class metadata\<rparr>)"

text \<open>
  \<^verbatim>\<open>fields_list.sort(key=lambda f: (f['group'], f.get('order', 0)))\<close>: a stable sort
  on the pair of group and order, compared lexicographically.
\<close>

definition extract_input_fields :: "generator \<Rightarrow> field_def list" where
  "extract_input_fields g =
     sort_key (\<lambda>f. (fd_group f, fd_order f))
       (map (field_def_of g) (dc_fields (input_dataclass g)))"

subsection \<open>Calculated fields, workflow and validation rules of the schema\<close>

record calc_field_def =
  cf_id :: string
  cf_field_type :: string
  cf_label :: string
  cf_formel :: string
  cf_requires :: "string list"
  cf_einheit :: string
  cf_editable :: bool
  cf_needs_confirmation :: bool
  cf_confirmation_threshold :: int
  cf_group :: string
  cf_hint :: "string option"
  cf_precision :: int
  cf_function_name :: string

text \<open>One entry per item of \<^verbatim>\<open>CalculatedFieldRegistry.get_all()\<close>, in the dictionary's order.\<close>

definition extract_calculated_fields :: "'f calc_registry \<Rightarrow> calc_field_def list" where
  "extract_calculated_fields reg =
     map (\<lambda>(key, meta).
            \<lparr>cf_id = key, cf_field_type = ''calculated'', cf_label = cm_label meta,
             cf_formel = cm_formel meta, cf_requires = cm_requires meta,
             cf_einheit = cm_einheit meta, cf_editable = cm_editable meta,
             cf_needs_confirmation = cm_needs_confirmation meta,
             cf_confirmation_threshold = cm_confirmation_threshold meta,
             cf_group = cm_group meta, cf_hint = cm_hint meta,
             cf_precision = cm_precision meta, cf_function_name = cm_function_name meta\<rparr>)
         (get_all reg)"

record workflow_entry =
  ws_order :: int
  ws_title :: string
  ws_description :: "string option"
  ws_groups :: "string list"
  ws_component_type :: string
  ws_show_if :: "string option"

text \<open>
  \<^verbatim>\<open>step_def['show_if'].__name__ if step_def.get('show_if') else None\<close>: a predicate is
  reduced to its name.
\<close>

definition extract_workflow :: "('c, 'p) step_registry \<Rightarrow> workflow_entry list" where
  "extract_workflow steps =
     map (\<lambda>step_def.
            \<lparr>ws_order = sd_order step_def, ws_title = sd_title step_def,
             ws_description = sd_description step_def, ws_groups = sd_groups step_def,
             ws_component_type = sd_component_type step_def,
             ws_show_if = (case sd_show_if step_def of None \<Rightarrow> None | Some p \<Rightarrow> Some (obj_name p))\<rparr>)
         steps"

text \<open>
  What the assembly reads from outside the repository: the clock, as the string
  \<^verbatim>\<open>datetime.now().isoformat()\<close>, and the order in which Python iterates over a
  set of strings, as a function from the sequence of insertions to the sequence the
  iteration yields.
\<close>

record gen_env =
  now_isoformat :: string
  set_iteration :: "string list \<Rightarrow> string list"

record validation_rules =
  vr_rules :: "string list"
  vr_implementations :: "(string \<times> string) list"

text \<open>
  \<^verbatim>\<open>_extract_validation_rules\<close>: every rule of every field is added to a set; the
  list of rules and the dictionary of implementations both iterate over that set.
\<close>

definition extract_validation_rules :: "gen_env \<Rightarrow> field_def list \<Rightarrow> validation_rules" where
  "extract_validation_rules env fields_list =
     (let rules = set_iteration env (concat (map fd_validation fields_list)) in
      \<lparr>vr_rules = rules,
       vr_implementations = map (\<lambda>rule. (rule, ''ValidationRule.'' @ rule)) rules\<rparr>)"

subsection \<open>The complete schema\<close>

text \<open>\<^verbatim>\<open>date.isoformat()\<close>: year, month and day with leading zeros.\<close>

definition digit_char :: "nat \<Rightarrow> char" where
  "digit_char n = char_of (48 + n mod 10)"

definition isoformat :: "pydate \<Rightarrow> string" where
  "isoformat d =
     [digit_char (date_year d div 1000), digit_char (date_year d div 100),
      digit_char (date_year d div 10), digit_char (date_year d), CHR ''-'',
      digit_char (date_month d div 10), digit_char (date_month d), CHR ''-'',
      digit_char (date_day d div 10), digit_char (date_day d)]"

text \<open>\<^verbatim>\<open>v.isoformat() if isinstance(v, date) else v\<close>\<close>

fun config_value :: "pyval \<Rightarrow> pyval" where
  "config_value (PDate d) = PStr (isoformat d)"
| "config_value v = v"

definition config_dict :: "generator \<Rightarrow> (string \<times> pyval) list" where
  "config_dict g =
     (case config g of None \<Rightarrow> [] | Some items \<Rightarrow> map (\<lambda>(k, v). (k, config_value v)) items)"

text \<open>
  The grouping loop: a group that is not yet a key of the dictionary is added with an
  empty list, and the field is appended to the list of its group.
\<close>

fun add_to_group :: "field_def \<Rightarrow> (string \<times> field_def list) list \<Rightarrow> (string \<times> field_def list) list" where
  "add_to_group field_def [] = [(fd_group field_def, [field_def])]"
| "add_to_group field_def ((group_name, members) # rest) =
     (if group_name = fd_group field_def then (group_name, members @ [field_def]) # rest
      else (group_name, members) # add_to_group field_def rest)"

definition group_fields :: "field_def list \<Rightarrow> (string \<times> field_def list) list" where
  "group_fields input_fields = foldl (\<lambda>groups field_def. add_to_group field_def groups) [] input_fields"

datatype any_field = InputField field_def | CalculatedField calc_field_def

record schema_meta =
  meta_title :: string
  meta_class_name :: string
  meta_generated_at :: string

record schema =
  sc_meta :: schema_meta
  sc_config :: "(string \<times> pyval) list"
  sc_input_fields :: "field_def list"
  sc_calculated_fields :: "calc_field_def list"
  sc_all_fields :: "any_field list"
  sc_groups :: "(string \<times> field_def list) list"
  sc_workflow :: "workflow_entry list"
  sc_validation_rules :: validation_rules

text \<open>
  The state the assembly can reach: the generator object and the two class-level
  registries. \<^verbatim>\<open>generate_complete_schema\<close> returns the schema together with that
  state as the call leaves it.
\<close>

record ('f, 'c, 'p) world =
  w_generator :: generator
  w_calc_registry :: "'f calc_registry"
  w_step_registry :: "('c, 'p) step_registry"

definition generate_complete_schema ::
  "gen_env \<Rightarrow> ('f, 'c, 'p) world \<Rightarrow> schema \<times> ('f, 'c, 'p) world" where
  "generate_complete_schema env w =
     (let g = w_generator w;
          input_fields = extract_input_fields g;
          calc_fields = extract_calculated_fields (w_calc_registry w);
          workflow = extract_workflow (w_step_registry w);
          groups = group_fields input_fields;
          all_fields = map InputField input_fields @ map CalculatedField calc_fields
      in (\<lparr>sc_meta =
             \<lparr>meta_title = get_or (dc_doc (input_dataclass g)) (dc_name (input_dataclass g)),
              meta_class_name = dc_name (input_dataclass g),
              meta_generated_at = now_isoformat env\<rparr>,
           sc_config = config_dict g,
           sc_input_fields = input_fields,
           sc_calculated_fields = calc_fields,
           sc_all_fields = all_fields,
           sc_groups = groups,
           sc_workflow = workflow,
           sc_validation_rules = extract_validation_rules env input_fields\<rparr>,
          w))"

subsection \<open>Sample dataclasses\<close>

text \<open>
  A dataclass with three fields, declared in a module that evaluates its annotations:
  \<^verbatim>\<open>austritts_datum: Optional[date]\<close> without metadata,
  \<^verbatim>\<open>name: str\<close> with \<^verbatim>\<open>ui_field(label="", validation="required")\<close> and
  \<^verbatim>\<open>gehalt: Optional[float]\<close> with a label, \<^verbatim>\<open>required=False\<close>, a group
  and an order. Its generator is the one the constructor builds.
\<close>

definition sample_dataclass :: dataclass where
  "sample_dataclass =
     \<lparr>dc_name = ''Fall'', dc_doc = Some ''Ein Versorgungsfall'',
      dc_fields =
        [\<lparr>f_name = ''austritts_datum'', f_type = TypeObject (TUnion [TDate, TNoneType]),
          f_metadata = no_metadata\<rparr>,
         \<lparr>f_name = ''name'', f_type = TypeObject TStr,
          f_metadata = ui_field (ui_args_default\<lparr>arg_label := Some [],
                          arg_validation := Some (VStr ''required'')\<rparr>)\<rparr>,
         \<lparr>f_name = ''gehalt'', f_type = TypeObject (TUnion [TFloat, TNoneType]),
          f_metadata = ui_field (ui_args_default\<lparr>arg_label := Some ''Letztes Gehalt'',
                          arg_required := Some False, arg_group := Some ''gehalt'',
                          arg_order := Some 1\<rparr>)\<rparr>],
      dc_namespace = (\<lambda>a. None)\<rparr>"

definition sample_generator :: generator where
  "sample_generator =
     \<lparr>input_dataclass = sample_dataclass, config = None,
      type_hints = map_of [(''austritts_datum'', TUnion [TDate, TNoneType]),
                           (''name'', TStr),
                           (''gehalt'', TUnion [TFloat, TNoneType])]\<rparr>"

text \<open>
  The same optional date in a module with postponed annotations: the field's
  \<^verbatim>\<open>type\<close> is the string \<^verbatim>\<open>Optional[date]\<close>, which the namespace
  evaluates to the union.
\<close>

definition postponed_dataclass :: dataclass where
  "postponed_dataclass =
     \<lparr>dc_name = ''Fall'', dc_doc = Some ''Ein Versorgungsfall'',
      dc_fields =
        [\<lparr>f_name = ''austrittsdatum'', f_type = AnnotationString ''Optional[date]'',
          f_metadata = no_metadata\<rparr>],
      dc_namespace =
        (\<lambda>a. if a = ''Optional[date]'' then Some (TUnion [TDate, TNoneType]) else None)\<rparr>"

definition postponed_generator :: generator where
  "postponed_generator =
     \<lparr>input_dataclass = postponed_dataclass, config = None,
      type_hints = map_of [(''austrittsdatum'', TUnion [TDate, TNoneType])]\<rparr>"

text \<open>The same optional date written \<^verbatim>\<open>date | None\<close>, on Python 3.10 to 3.13.\<close>

definition bar_union_dataclass :: dataclass where
  "bar_union_dataclass =
     \<lparr>dc_name = ''Fall'', dc_doc = Some ''Ein Versorgungsfall'',
      dc_fields =
        [\<lparr>f_name = ''austrittsdatum'', f_type = TypeObject (TUnionType [TDate, TNoneType]),
          f_metadata = no_metadata\<rparr>],
      dc_namespace = (\<lambda>a. None)\<rparr>"

definition bar_union_generator :: generator where
  "bar_union_generator =
     \<lparr>input_dataclass = bar_union_dataclass, config = None,
      type_hints = map_of [(''austrittsdatum'', TUnionType [TDate, TNoneType])]\<rparr>"

text \<open>A world and an environment for the evaluations of the schema assembly.\<close>

definition sample_world :: "(unit, unit, unit) world" where
  "sample_world =
     \<lparr>w_generator = sample_generator,
      w_calc_registry =
        calculated_field (calc_args_default ''x'' ''X'' ''a + b'' [''a'', ''b''])
          \<lparr>obj_name = ''berechne_x'', obj_ref = ()\<rparr> clear,
      w_step_registry =
        workflow_step 1 ''Eingabedaten'' None None None ''form''
          \<lparr>obj_name = ''EingabeStep'', obj_ref = ()\<rparr> clear_steps\<rparr>"

definition sample_gen_env :: "string \<Rightarrow> gen_env" where
  "sample_gen_env now = \<lparr>now_isoformat = now, set_iteration = remdups\<rparr>"

section \<open>Properties of the confirmation quorum\<close>

subsection \<open>Single steps\<close>



lemma confirm_contributed_noop:
  "ma_geprueft st s (calc_id calc) \<Longrightarrow> confirm calc s st = st"
  by (simp add: confirm_def Let_def)

lemma confirm_verified_noop: "verified calc st \<Longrightarrow> confirm calc s st = st"
  by (simp add: confirm_def verified_def Let_def)

lemma confirm_fresh:
  assumes "\<not> verified calc st" "needs_confirmation_of calc" "\<not> ma_geprueft st s (calc_id calc)"
  shows "bestaetigt (confirm calc s st) (calc_id calc) = bestaetigt st (calc_id calc) + 1"
    and "ma_geprueft (confirm calc s st) s (calc_id calc)"
  using assms
  by (auto simp: confirm_def verified_def bestaetigt_def ma_geprueft_def Let_def
           split: option.splits)

lemma confirm_other_subject:
  "s' \<noteq> s \<Longrightarrow> ma_geprueft (confirm calc s st) s' k = ma_geprueft st s' k"
  by (simp add: confirm_def ma_geprueft_def Let_def)

lemma confirm_idem: "confirm calc s (confirm calc s st) = confirm calc s st"
proof (cases "verified calc st \<or> \<not> needs_confirmation_of calc \<or> ma_geprueft st s (calc_id calc)")
  case True
  then have "confirm calc s st = st"
    by (auto simp: confirm_def verified_def Let_def)
  then show ?thesis by simp
next
  case False
  then have "ma_geprueft (confirm calc s st) s (calc_id calc)"
    by (simp add: confirm_fresh(2))
  then show ?thesis by (rule confirm_contributed_noop)
qed

subsection \<open>Sequences of confirmations\<close>



text \<open>
  C1. With threshold 3 on one calculated field and an empty session: three distinct
  subjects confirming once each bring the counter to 1, 2 and 3, and the field is verified
  exactly after the third; a fourth distinct subject's attempt leaves the session state
  unchanged; an attempt by a subject whose flag for the field is already set leaves the
  state unchanged, and so does an immediate second attempt by the same subject.
\<close>

theorem quorum_threshold_three:
  assumes thr: "threshold_of calc = 3"
    and nc: "needs_confirmation_of calc"
    and d: "distinct [s1, s2, s3, s4]"
  shows "bestaetigt (confirm calc s1 init_session) (calc_id calc) = 1
       \<and> \<not> verified calc (confirm calc s1 init_session)
       \<and> bestaetigt (confirm calc s2 (confirm calc s1 init_session)) (calc_id calc) = 2
       \<and> \<not> verified calc (confirm calc s2 (confirm calc s1 init_session))
       \<and> bestaetigt (confirm calc s3 (confirm calc s2 (confirm calc s1 init_session))) (calc_id calc) = 3
       \<and> verified calc (confirm calc s3 (confirm calc s2 (confirm calc s1 init_session)))
       \<and> confirm calc s4 (confirm calc s3 (confirm calc s2 (confirm calc s1 init_session)))
           = confirm calc s3 (confirm calc s2 (confirm calc s1 init_session))
       \<and> (\<forall>s st. ma_geprueft st s (calc_id calc) \<longrightarrow> confirm calc s st = st)
       \<and> (\<forall>s st. confirm calc s (confirm calc s st) = confirm calc s st)"
proof -
  let ?k = "calc_id calc"
  let ?st1 = "confirm calc s1 init_session"
  let ?st2 = "confirm calc s2 ?st1"
  let ?st3 = "confirm calc s3 ?st2"
  have b0: "bestaetigt init_session ?k = 0"
    by (simp add: init_session_def bestaetigt_def)
  have g0: "\<not> ma_geprueft init_session s ?k" for s
    by (simp add: init_session_def ma_geprueft_def)
  have v0: "\<not> verified calc init_session"
    by (simp add: verified_def thr b0)
  have b1: "bestaetigt ?st1 ?k = 1"
    using confirm_fresh(1)[OF v0 nc g0] b0 by simp
  have v1: "\<not> verified calc ?st1"
    by (simp add: verified_def thr b1)
  have g1: "\<not> ma_geprueft ?st1 s2 ?k"
    using confirm_other_subject[of s2 s1 calc init_session ?k] d g0 by auto
  have g1': "\<not> ma_geprueft ?st1 s3 ?k"
    using confirm_other_subject[of s3 s1 calc init_session ?k] d g0 by auto
  have b2: "bestaetigt ?st2 ?k = 2"
    using confirm_fresh(1)[OF v1 nc g1] b1 by simp
  have v2: "\<not> verified calc ?st2"
    by (simp add: verified_def thr b2)
  have g2: "\<not> ma_geprueft ?st2 s3 ?k"
    using confirm_other_subject[of s3 s2 calc ?st1 ?k] d g1' by auto
  have b3: "bestaetigt ?st3 ?k = 3"
    using confirm_fresh(1)[OF v2 nc g2] b2 by simp
  have v3: "verified calc ?st3"
    by (simp add: verified_def thr b3)
  have n4: "confirm calc s4 ?st3 = ?st3"
    using v3 by (rule confirm_verified_noop)
  show ?thesis
    using b1 v1 b2 v2 b3 v3 n4 confirm_contributed_noop confirm_idem by blast
qed

theorem quorum_threshold_three_witness:
  "threshold_of \<lparr>calc_id = ''dienstzeit'', calc_confirmation_threshold = Some 3,
                  calc_needs_confirmation = None\<rparr> = 3
   \<and> distinct [''a'', ''b'', ''c'', ''d'']
   \<and> bestaetigt (confirm \<lparr>calc_id = ''dienstzeit'', calc_confirmation_threshold = Some 3,
                  calc_needs_confirmation = None\<rparr> ''c''
        (confirm \<lparr>calc_id = ''dienstzeit'', calc_confirmation_threshold = Some 3,
                  calc_needs_confirmation = None\<rparr> ''b''
          (confirm \<lparr>calc_id = ''dienstzeit'', calc_confirmation_threshold = Some 3,
                  calc_needs_confirmation = None\<rparr> ''a'' init_session))) ''dienstzeit'' = 3
   \<and> bestaetigt (confirm \<lparr>calc_id = ''dienstzeit'', calc_confirmation_threshold = Some 3,
                  calc_needs_confirmation = None\<rparr> ''d''
       (confirm \<lparr>calc_id = ''dienstzeit'', calc_confirmation_threshold = Some 3,
                  calc_needs_confirmation = None\<rparr> ''c''
        (confirm \<lparr>calc_id = ''dienstzeit'', calc_confirmation_threshold = Some 3,
                  calc_needs_confirmation = None\<rparr> ''b''
          (confirm \<lparr>calc_id = ''dienstzeit'', calc_confirmation_threshold = Some 3,
                  calc_needs_confirmation = None\<rparr> ''a'' init_session)))) ''dienstzeit'' = 3"
proof -
  let ?c = "\<lparr>calc_id = ''dienstzeit'', calc_confirmation_threshold = Some 3,
             calc_needs_confirmation = None\<rparr>"
  have thr: "threshold_of ?c = 3" by (simp add: threshold_of_def)
  have nc: "needs_confirmation_of ?c" by (simp add: needs_confirmation_of_def)
  have d: "distinct [''a'', ''b'', ''c'', ''d'']" by simp
  from quorum_threshold_three[OF thr nc d] thr d show ?thesis by simp
qed



section \<open>Properties of the validation engine\<close>

lemma fromisoformat_1950: "fromisoformat sample_env ''1950-01-01'' = Some (Date 1950 1 1)"
  by (simp add: sample_env_def fromisoformat_py310_def digit_val_def days_in_month_def is_leap_def)

lemma fromisoformat_1960: "fromisoformat sample_env ''1960-03-15'' = Some (Date 1960 3 15)"
  by (simp add: sample_env_def fromisoformat_py310_def digit_val_def days_in_month_def is_leap_def)

lemma fromisoformat_empty: "fromisoformat sample_env [] = None"
  by (simp add: sample_env_def fromisoformat_py310_def)

lemma fromisoformat_short: "fromisoformat sample_env ''gestern'' = None"
  by (simp add: sample_env_def fromisoformat_py310_def)

text \<open>
  The rule \<^verbatim>\<open>date_after_eintrittsdatum\<close> is satisfied when the context has no
  \<^verbatim>\<open>eintrittsdatum\<close> or no context is given, and compares the two dates when the
  value is not empty and the value and the sibling both parse as dates.
\<close>

lemma date_after_eintrittsdatum_checked:
  "validate env ''date_after_eintrittsdatum'' v None = (True, [])
   \<and> (ctx ''eintrittsdatum'' = None \<longrightarrow>
        validate env ''date_after_eintrittsdatum'' v (Some ctx) = (True, []))
   \<and> (\<forall>d c e. truthy v \<and> parses_as_date env v = Some d \<and> ctx ''eintrittsdatum'' = Some c
          \<and> parses_as_date env c = Some e \<longrightarrow>
        validate env ''date_after_eintrittsdatum'' v (Some ctx)
          = (date_ge d e, if date_ge d e then [] else msg_not_after))"
proof (intro conjI allI impI)
  show "validate env ''date_after_eintrittsdatum'' v None = (True, [])"
    by (simp add: validate_def)
next
  assume "ctx ''eintrittsdatum'' = None"
  then show "validate env ''date_after_eintrittsdatum'' v (Some ctx) = (True, [])"
    by (simp add: validate_def)
next
  fix d c e
  assume a: "truthy v \<and> parses_as_date env v = Some d \<and> ctx ''eintrittsdatum'' = Some c
          \<and> parses_as_date env c = Some e"
  from a have dv: "to_date_operand env v = Some (PDate d)"
    by (cases v) auto
  from a have de: "to_date_operand env c = Some (PDate e)"
    by (cases c) auto
  from a dv de
  show "validate env ''date_after_eintrittsdatum'' v (Some ctx)
          = (date_ge d e, if date_ge d e then [] else msg_not_after)"
    by (simp add: validate_def outcome_def)
qed

text \<open>
  C3. The rule \<^verbatim>\<open>date_after_geburtsdatum\<close>, which the record type puts on
  \<^verbatim>\<open>eintrittsdatum\<close>, has no branch in \<^verbatim>\<open>validate\<close>: with the value
  1950-01-01 and the sibling \<^verbatim>\<open>geburtsdatum\<close> = 1960-03-15 present in the context,
  both parsable and the value earlier than the sibling, the result is still (True, ""),
  whatever the environment. The sibling rule \<^verbatim>\<open>date_after_eintrittsdatum\<close> rejects
  the same pair of dates.
\<close>

theorem date_after_geburtsdatum_not_checked:
  "validate env ''date_after_geburtsdatum'' (PStr ''1950-01-01'')
      (Some [''geburtsdatum'' \<mapsto> PStr ''1960-03-15'']) = (True, [])
   \<and> validate sample_env ''date_after_eintrittsdatum'' (PStr ''1950-01-01'')
      (Some [''eintrittsdatum'' \<mapsto> PStr ''1960-03-15'']) = (False, msg_not_after)
   \<and> parses_as_date sample_env (PStr ''1950-01-01'') = Some (Date 1950 1 1)
   \<and> parses_as_date sample_env (PStr ''1960-03-15'') = Some (Date 1960 3 15)
   \<and> date_ge (Date 1950 1 1) (Date 1960 3 15) = False"
  by (simp add: validate_def fromisoformat_1950 fromisoformat_1960 outcome_def
        date_ge_def date_key_def)

text \<open>
  C8, as the claim states it, fails on an empty value: the empty string does not parse as
  a date, and \<^verbatim>\<open>date_in_past\<close> accepts it with an empty message.
\<close>

theorem date_in_past_empty_counterexample:
  "validate sample_env ''date_in_past'' (PStr []) None = (True, [])
   \<and> parses_as_date sample_env (PStr []) = None"
  by (simp add: validate_def fromisoformat_empty)

text \<open>
  C8, amended. \<^verbatim>\<open>date_in_past\<close> accepts every empty (falsy) value with an empty
  message. On a non-empty value it is valid exactly when the value parses as a date
  strictly before the current date, then with an empty message; a non-empty value that
  does not parse as a date gives the result (False, "invalid date" message), and one that
  parses as a date not before today gives (False, "must be in the past" message). The
  result is always a pair, never an exception.
\<close>

theorem date_in_past_nonempty:
  "(\<not> truthy v \<longrightarrow> validate env ''date_in_past'' v ctx = (True, []))
   \<and> (truthy v \<longrightarrow>
        fst (validate env ''date_in_past'' v ctx)
          = (\<exists>d. parses_as_date env v = Some d \<and> date_lt d (today env)))
   \<and> (truthy v \<and> parses_as_date env v = None \<longrightarrow>
        validate env ''date_in_past'' v ctx = (False, msg_invalid_date))
   \<and> (\<forall>d. truthy v \<and> parses_as_date env v = Some d \<and> \<not> date_lt d (today env) \<longrightarrow>
        validate env ''date_in_past'' v ctx = (False, msg_not_past))
   \<and> (\<forall>d. truthy v \<and> parses_as_date env v = Some d \<and> date_lt d (today env) \<longrightarrow>
        validate env ''date_in_past'' v ctx = (True, []))"
  by (cases v) (auto simp: validate_def outcome_def split: option.splits)

theorem date_in_past_nonempty_witness:
  "truthy (PStr ''1960-03-15'')
   \<and> parses_as_date sample_env (PStr ''1960-03-15'') = Some (Date 1960 3 15)
   \<and> date_lt (Date 1960 3 15) (today sample_env)
   \<and> validate sample_env ''date_in_past'' (PStr ''1960-03-15'') None = (True, [])
   \<and> truthy (PStr ''gestern'')
   \<and> parses_as_date sample_env (PStr ''gestern'') = None
   \<and> validate sample_env ''date_in_past'' (PStr ''gestern'') None = (False, msg_invalid_date)"
proof -
  have t1: "truthy (PStr ''1960-03-15'')" by simp
  have p1: "parses_as_date sample_env (PStr ''1960-03-15'') = Some (Date 1960 3 15)"
    by (simp add: fromisoformat_1960)
  have l1: "date_lt (Date 1960 3 15) (today sample_env)"
    by (simp add: sample_env_def date_lt_def date_key_def)
  have t2: "truthy (PStr ''gestern'')" by simp
  have p2: "parses_as_date sample_env (PStr ''gestern'') = None"
    by (simp add: fromisoformat_short)
  from date_in_past_nonempty[of "PStr ''1960-03-15''" sample_env None] t1 p1 l1
  have r1: "validate sample_env ''date_in_past'' (PStr ''1960-03-15'') None = (True, [])"
    by blast
  from date_in_past_nonempty[of "PStr ''gestern''" sample_env None] t2 p2
  have r2: "validate sample_env ''date_in_past'' (PStr ''gestern'') None = (False, msg_invalid_date)"
    by blast
  from t1 p1 l1 r1 t2 p2 r2 show ?thesis by blast
qed

text \<open>
  C10. A rule name other than \<^verbatim>\<open>required\<close>, \<^verbatim>\<open>date_in_past\<close>,
  \<^verbatim>\<open>date_after_eintrittsdatum\<close> and \<^verbatim>\<open>positive\<close> evaluates to (True, "") for
  every value and every context, given or not.
\<close>

theorem unknown_rule_fail_open:
  "rule \<notin> {''required'', ''date_in_past'', ''date_after_eintrittsdatum'', ''positive''}
   \<Longrightarrow> validate env rule v ctx = (True, [])"
  by (simp add: validate_def)

theorem unknown_rule_fail_open_witness:
  "''email'' \<notin> {''required'', ''date_in_past'', ''date_after_eintrittsdatum'', ''positive''}
   \<and> validate sample_env ''email'' (PInt 5) None = (True, [])"
proof -
  have h: "''email'' \<notin> {''required'', ''date_in_past'', ''date_after_eintrittsdatum'', ''positive''}"
    by simp
  from unknown_rule_fail_open[OF h, of sample_env "PInt 5" None] h show ?thesis by blast
qed

section \<open>Properties of the registries\<close>

subsection \<open>Dictionary assignment\<close>

lemma map_of_dict_set: "map_of (dict_set k v d) = (map_of d)(k \<mapsto> v)"
  by (induction d) (auto simp: fun_eq_iff)

lemma dict_set_twice: "dict_set k v2 (dict_set k v1 d) = dict_set k v2 d"
  by (induction d) auto

lemma keys_dict_set:
  "map fst (dict_set k v d) = (if k \<in> fst ` set d then map fst d else map fst d @ [k])"
  by (induction d) auto

lemma distinct_dict_set: "distinct (map fst d) \<Longrightarrow> distinct (map fst (dict_set k v d))"
  by (simp add: keys_dict_set)

lemma filter_dict_set:
  "distinct (map fst d) \<Longrightarrow> filter (\<lambda>p. fst p = k) (dict_set k v d) = [(k, v)]"
proof (induction d)
  case Nil
  show ?case by simp
next
  case (Cons p ps)
  show ?case
  proof (cases "fst p = k")
    case True
    with Cons.prems have "\<forall>q\<in>set ps. fst q \<noteq> k" by (auto simp: image_iff)
    then have "filter (\<lambda>p. fst p = k) ps = []" by (simp add: filter_empty_conv)
    with True show ?thesis by simp
  next
    case False
    with Cons show ?thesis by simp
  qed
qed

text \<open>
  C5. Two registrations under one key, on a registry whose keys are distinct (as a
  dictionary's are): \<^verbatim>\<open>get(key)\<close> returns the second metadata; the registry is the
  one that registering the second alone would give, so nothing of the first is left or
  merged; \<^verbatim>\<open>get_all()\<close> holds exactly one entry for the key, the second metadata;
  every other key reads as before. \<^verbatim>\<open>register\<close> is a total function: no error is
  raised for the duplicate key.
\<close>

theorem register_last_wins:
  assumes "cm_key m1 = cm_key m2" and "distinct (map fst reg)"
  shows "get (register m2 (register m1 reg)) (cm_key m2) = Some m2
     \<and> register m2 (register m1 reg) = register m2 reg
     \<and> filter (\<lambda>p. fst p = cm_key m2) (get_all (register m2 (register m1 reg)))
         = [(cm_key m2, m2)]
     \<and> distinct (map fst (get_all (register m2 (register m1 reg))))
     \<and> (\<forall>k. k \<noteq> cm_key m2 \<longrightarrow> get (register m2 (register m1 reg)) k = get reg k)"
  using assms
  by (simp add: get_def register_def get_all_def dict_get_def map_of_dict_set dict_set_twice
       filter_dict_set distinct_dict_set)

theorem register_last_wins_witness:
  "cm_key (decorator_metadata (calc_args_default ''x'' ''first'' ''a + b'' [''a'', ''b''])
            \<lparr>obj_name = ''berechne_x'', obj_ref = ()\<rparr>)
     = cm_key (decorator_metadata (calc_args_default ''x'' ''second'' ''a + b'' [''a'', ''b''])
            \<lparr>obj_name = ''berechne_x'', obj_ref = ()\<rparr>)
   \<and> distinct (map fst (clear :: unit calc_registry))
   \<and> get (calculated_field (calc_args_default ''x'' ''second'' ''a + b'' [''a'', ''b''])
             \<lparr>obj_name = ''berechne_x'', obj_ref = ()\<rparr>
          (calculated_field (calc_args_default ''x'' ''first'' ''a + b'' [''a'', ''b''])
             \<lparr>obj_name = ''berechne_x'', obj_ref = ()\<rparr> clear)) ''x''
       = Some (decorator_metadata (calc_args_default ''x'' ''second'' ''a + b'' [''a'', ''b''])
            \<lparr>obj_name = ''berechne_x'', obj_ref = ()\<rparr>)
   \<and> cm_label (decorator_metadata (calc_args_default ''x'' ''second'' ''a + b'' [''a'', ''b''])
            \<lparr>obj_name = ''berechne_x'', obj_ref = ()\<rparr>) = ''second''"
proof -
  let ?f = "\<lparr>obj_name = ''berechne_x'', obj_ref = ()\<rparr>"
  let ?m1 = "decorator_metadata (calc_args_default ''x'' ''first'' ''a + b'' [''a'', ''b'']) ?f"
  let ?m2 = "decorator_metadata (calc_args_default ''x'' ''second'' ''a + b'' [''a'', ''b'']) ?f"
  have k1: "cm_key ?m1 = ''x''" and k2: "cm_key ?m2 = ''x''"
    by (simp_all add: decorator_metadata_def calc_args_default_def)
  have k: "cm_key ?m1 = cm_key ?m2" by (simp only: k1 k2)
  have d: "distinct (map fst (clear :: unit calc_registry))" by (simp add: clear_def)
  have l: "cm_label ?m2 = ''second''"
    by (simp add: decorator_metadata_def calc_args_default_def)
  from register_last_wins[OF k d]
  have "get (register ?m2 (register ?m1 clear)) (cm_key ?m2) = Some ?m2" by blast
  then have "get (calculated_field (calc_args_default ''x'' ''second'' ''a + b'' [''a'', ''b'']) ?f
          (calculated_field (calc_args_default ''x'' ''first'' ''a + b'' [''a'', ''b'']) ?f clear)) ''x''
       = Some ?m2"
    by (simp only: calculated_field_def k2)
  with k d l show ?thesis by blast
qed

subsection \<open>Workflow steps\<close>

lemma register_step_sorted: "sorted (map sd_order (register_step x r))"
  by (simp add: register_step_def)

lemma register_step_mset: "mset (register_step x r) = mset r + {#x#}"
  by (simp add: register_step_def)

lemma register_step_stable:
  "filter (\<lambda>s. sd_order s = k) (register_step x r) = filter (\<lambda>s. sd_order s = k) (r @ [x])"
  by (simp add: register_step_def sort_key_stable)

lemma register_steps_mset: "mset (register_steps xs r) = mset r + mset xs"
  by (induction xs arbitrary: r) (simp_all add: register_step_mset)

lemma register_steps_stable:
  "filter (\<lambda>s. sd_order s = k) (register_steps xs r) = filter (\<lambda>s. sd_order s = k) (r @ xs)"
  by (induction xs arbitrary: r) (simp_all add: register_step_stable)

lemma register_steps_sorted:
  "sorted (map sd_order r) \<Longrightarrow> sorted (map sd_order (register_steps xs r))"
  by (induction xs arbitrary: r) (simp_all add: register_step_sorted)

text \<open>
  C6. After any sequence of registrations into an empty registry, the list of steps is
  sorted by \<^verbatim>\<open>order\<close> ascending, holds exactly the registered steps (as a multiset),
  and for every value of \<^verbatim>\<open>order\<close> the steps with that value stand in the sequence
  of their registration; so the list is the stable sort of the registration sequence.
\<close>

theorem workflow_steps_sorted_stable:
  "sorted (map sd_order (register_steps xs clear_steps))
   \<and> mset (register_steps xs clear_steps) = mset xs
   \<and> (\<forall>k. filter (\<lambda>s. sd_order s = k) (register_steps xs clear_steps)
            = filter (\<lambda>s. sd_order s = k) xs)
   \<and> register_steps xs clear_steps = sort_key sd_order xs"
proof -
  have s: "sorted (map sd_order (register_steps xs clear_steps))"
    by (rule register_steps_sorted) (simp add: clear_steps_def)
  have m: "mset (register_steps xs clear_steps) = mset xs"
    by (simp add: register_steps_mset clear_steps_def)
  have f: "filter (\<lambda>s. sd_order s = k) (register_steps xs clear_steps)
           = filter (\<lambda>s. sd_order s = k) xs" for k
    by (simp add: register_steps_stable clear_steps_def)
  have "sort_key sd_order xs = register_steps xs clear_steps"
  proof (rule properties_for_sort_key)
    show "mset (register_steps xs clear_steps) = mset xs" by (rule m)
    show "\<And>k. k \<in> set (register_steps xs clear_steps) \<Longrightarrow>
        filter (\<lambda>x. sd_order k = sd_order x) (register_steps xs clear_steps)
        = filter (\<lambda>x. sd_order k = sd_order x) xs"
      using f by (simp add: eq_commute)
    show "sorted (map sd_order (register_steps xs clear_steps))" by (rule s)
  qed
  with s m f show ?thesis by simp
qed

text \<open>The scenario of the claim: orders 2, 1, 1 registered in that sequence.\<close>

theorem workflow_steps_sorted_stable_witness:
  "register_steps
     [\<lparr>sd_order = 2, sd_title = ''A'', sd_description = None, sd_groups = [], sd_show_if = None,
       sd_component_type = ''form'', sd_class = \<lparr>obj_name = ''A'', obj_ref = ()\<rparr>,
       sd_class_name = ''A''\<rparr>,
      \<lparr>sd_order = 1, sd_title = ''B'', sd_description = None, sd_groups = [], sd_show_if = None,
       sd_component_type = ''form'', sd_class = \<lparr>obj_name = ''B'', obj_ref = ()\<rparr>,
       sd_class_name = ''B''\<rparr>,
      \<lparr>sd_order = 1, sd_title = ''C'', sd_description = None, sd_groups = [], sd_show_if = None,
       sd_component_type = ''form'', sd_class = \<lparr>obj_name = ''C'', obj_ref = ()\<rparr>,
       sd_class_name = ''C''\<rparr>]
     (clear_steps :: (unit, unit) step_registry)
   = [\<lparr>sd_order = 1, sd_title = ''B'', sd_description = None, sd_groups = [], sd_show_if = None,
       sd_component_type = ''form'', sd_class = \<lparr>obj_name = ''B'', obj_ref = ()\<rparr>,
       sd_class_name = ''B''\<rparr>,
      \<lparr>sd_order = 1, sd_title = ''C'', sd_description = None, sd_groups = [], sd_show_if = None,
       sd_component_type = ''form'', sd_class = \<lparr>obj_name = ''C'', obj_ref = ()\<rparr>,
       sd_class_name = ''C''\<rparr>,
      \<lparr>sd_order = 2, sd_title = ''A'', sd_description = None, sd_groups = [], sd_show_if = None,
       sd_component_type = ''form'', sd_class = \<lparr>obj_name = ''A'', obj_ref = ()\<rparr>,
       sd_class_name = ''A''\<rparr>]"
proof -
  let ?a = "\<lparr>sd_order = 2, sd_title = ''A'', sd_description = None, sd_groups = [],
       sd_show_if = None :: unit pyobject option,
       sd_component_type = ''form'', sd_class = \<lparr>obj_name = ''A'', obj_ref = ()\<rparr>,
       sd_class_name = ''A''\<rparr>"
  let ?b = "\<lparr>sd_order = 1, sd_title = ''B'', sd_description = None, sd_groups = [],
       sd_show_if = None :: unit pyobject option,
       sd_component_type = ''form'', sd_class = \<lparr>obj_name = ''B'', obj_ref = ()\<rparr>,
       sd_class_name = ''B''\<rparr>"
  let ?c = "\<lparr>sd_order = 1, sd_title = ''C'', sd_description = None, sd_groups = [],
       sd_show_if = None :: unit pyobject option,
       sd_component_type = ''form'', sd_class = \<lparr>obj_name = ''C'', obj_ref = ()\<rparr>,
       sd_class_name = ''C''\<rparr>"
  from workflow_steps_sorted_stable[of "[?a, ?b, ?c]"]
  have "register_steps [?a, ?b, ?c] clear_steps = sort_key sd_order [?a, ?b, ?c]" by blast
  also have "\<dots> = [?b, ?c, ?a]" by simp
  finally show ?thesis .
qed

section \<open>Properties of the field introspection\<close>

lemma set_extract_input_fields:
  "set (extract_input_fields g) = field_def_of g ` set (dc_fields (input_dataclass g))"
  by (simp add: extract_input_fields_def)

lemma fd_id_field_def_of: "fd_id (field_def_of g f) = f_name f"
  by (simp add: field_def_of_def Let_def)

lemma field_def_of_extracted:
  "f \<in> set (dc_fields (input_dataclass g)) \<Longrightarrow> field_def_of g f \<in> set (extract_input_fields g)"
  by (simp add: set_extract_input_fields)

lemma extracted_is_field_def_of:
  assumes "distinct (map f_name (dc_fields (input_dataclass g)))"
    and "f \<in> set (dc_fields (input_dataclass g))"
    and "d \<in> set (extract_input_fields g)" and "fd_id d = f_name f"
  shows "d = field_def_of g f"
proof -
  from assms(3) obtain f' where f': "f' \<in> set (dc_fields (input_dataclass g))" "d = field_def_of g f'"
    by (auto simp: set_extract_input_fields)
  with assms(4) have "f_name f' = f_name f" by (simp add: fd_id_field_def_of)
  with assms(1,2) f'(1) have "f' = f" by (meson distinct_map inj_onD)
  with f'(2) show ?thesis by simp
qed

lemma sample_dataclass_names:
  "map f_name (dc_fields sample_dataclass) = [''austritts_datum'', ''name'', ''gehalt'']"
  by (simp add: sample_dataclass_def)

lemma init_generator_sample: "init_generator sample_dataclass None = Inr sample_generator"
  by (simp add: init_generator_def get_type_hints_def sample_dataclass_def sample_generator_def)

text \<open>
  Where the field's \<^verbatim>\<open>type\<close> is a \<^verbatim>\<open>typing.Union\<close> object with
  \<^verbatim>\<open>NoneType\<close> among its arguments and \<^verbatim>\<open>date\<close> as the first other
  argument, and the type hints give the same union, a field without metadata is extracted
  with the type \<^verbatim>\<open>"date"\<close>, not required, and with the inferred label.
\<close>

lemma union_date_field_inferred:
  assumes "f \<in> set (dc_fields (input_dataclass g))"
    and "distinct (map f_name (dc_fields (input_dataclass g)))"
    and "f_metadata f = no_metadata" and "f_type f = TypeObject (TUnion args)"
    and "type_hints g (f_name f) = Some (TUnion args)"
    and "TNoneType \<in> set args" and "first_non_none args = TDate"
  shows "(\<exists>d \<in> set (extract_input_fields g). fd_id d = f_name f)
     \<and> (\<forall>d \<in> set (extract_input_fields g). fd_id d = f_name f \<longrightarrow>
           fd_type d = ''date'' \<and> fd_required d = False
           \<and> fd_label d = title (replace_underscores (f_name f)))"
proof -
  have props: "fd_type (field_def_of g f) = ''date'' \<and> fd_required (field_def_of g f) = False
       \<and> fd_label (field_def_of g f) = title (replace_underscores (f_name f))"
    using assms(3-7)
    by (simp add: field_def_of_def Let_def no_metadata_def get_or_def get_default_def
          infer_label_def is_required_def)
  have ex: "field_def_of g f \<in> set (extract_input_fields g)"
    using assms(1) by (rule field_def_of_extracted)
  have "d = field_def_of g f" if "d \<in> set (extract_input_fields g)" "fd_id d = f_name f" for d
    using extracted_is_field_def_of[OF assms(2,1) that] .
  with props ex fd_id_field_def_of[of g f] show ?thesis by blast
qed

text \<open>
  C7. An optional date attribute without metadata, declared in a module with postponed
  annotations: the constructor resolves the hint to \<^verbatim>\<open>Optional[date]\<close>, so the
  field is not required, but \<^verbatim>\<open>_infer_ui_type\<close> is given the field's
  \<^verbatim>\<open>type\<close>, the annotation string, and the extracted type is \<^verbatim>\<open>"text"\<close>.
  Written \<^verbatim>\<open>date | None\<close> on Python 3.10 to 3.13, the attribute is extracted with
  the type \<^verbatim>\<open>"text"\<close> and as required. The same attribute declared
  \<^verbatim>\<open>Optional[date]\<close> in a module that evaluates its annotations is extracted with
  the type \<^verbatim>\<open>"date"\<close> and as not required. The label is the title-cased name in
  all three.
\<close>

theorem optional_date_annotation_not_unwrapped:
  "init_generator postponed_dataclass None = Inr postponed_generator
   \<and> map fd_id (extract_input_fields postponed_generator) = [''austrittsdatum'']
   \<and> map fd_type (extract_input_fields postponed_generator) = [''text'']
   \<and> map fd_required (extract_input_fields postponed_generator) = [False]
   \<and> map fd_label (extract_input_fields postponed_generator) = [''Austrittsdatum'']
   \<and> init_generator bar_union_dataclass None = Inr bar_union_generator
   \<and> map fd_id (extract_input_fields bar_union_generator) = [''austrittsdatum'']
   \<and> map fd_type (extract_input_fields bar_union_generator) = [''text'']
   \<and> map fd_required (extract_input_fields bar_union_generator) = [True]
   \<and> map fd_label (extract_input_fields bar_union_generator) = [''Austrittsdatum'']
   \<and> init_generator sample_dataclass None = Inr sample_generator
   \<and> map fd_id (extract_input_fields sample_generator)
       = [''austritts_datum'', ''name'', ''gehalt'']
   \<and> map fd_type (extract_input_fields sample_generator) = [''date'', ''text'', ''number'']
   \<and> map fd_required (extract_input_fields sample_generator) = [False, True, False]"
proof -
  have p: "init_generator postponed_dataclass None = Inr postponed_generator"
    by (simp add: init_generator_def get_type_hints_def postponed_dataclass_def
          postponed_generator_def)
  have b: "init_generator bar_union_dataclass None = Inr bar_union_generator"
    by (simp add: init_generator_def get_type_hints_def bar_union_dataclass_def
          bar_union_generator_def)
  have p1: "map fd_id (extract_input_fields postponed_generator) = [''austrittsdatum'']"
    by code_simp
  have p2: "map fd_type (extract_input_fields postponed_generator) = [''text'']"
    by code_simp
  have p3: "map fd_required (extract_input_fields postponed_generator) = [False]"
    by code_simp
  have p4: "map fd_label (extract_input_fields postponed_generator) = [''Austrittsdatum'']"
    by code_simp
  have b1: "map fd_id (extract_input_fields bar_union_generator) = [''austrittsdatum'']"
    by code_simp
  have b2: "map fd_type (extract_input_fields bar_union_generator) = [''text'']"
    by code_simp
  have b3: "map fd_required (extract_input_fields bar_union_generator) = [True]"
    by code_simp
  have b4: "map fd_label (extract_input_fields bar_union_generator) = [''Austrittsdatum'']"
    by code_simp
  have s1: "map fd_id (extract_input_fields sample_generator)
       = [''austritts_datum'', ''name'', ''gehalt'']"
    by code_simp
  have s2: "map fd_type (extract_input_fields sample_generator) = [''date'', ''text'', ''number'']"
    by code_simp
  have s3: "map fd_required (extract_input_fields sample_generator) = [False, True, False]"
    by code_simp
  from p p1 p2 p3 p4 b b1 b2 b3 b4 init_generator_sample s1 s2 s3 show ?thesis
    by (intro conjI)
qed

text \<open>
  C9, as the claim states it, fails for an explicit label that is the empty string: the
  field \<^verbatim>\<open>name\<close> of the sample dataclass is declared with
  \<^verbatim>\<open>ui_field(label="")\<close>, and its extracted label is the inferred \<^verbatim>\<open>"Name"\<close>.
\<close>

theorem explicit_empty_label_counterexample:
  "map f_name (dc_fields sample_dataclass) = [''austritts_datum'', ''name'', ''gehalt'']
   \<and> map ui_label (map f_metadata (dc_fields sample_dataclass))
       = [None, Some [], Some ''Letztes Gehalt'']
   \<and> map fd_id (extract_input_fields sample_generator)
       = [''austritts_datum'', ''name'', ''gehalt'']
   \<and> map fd_label (extract_input_fields sample_generator)
       = [''Austritts Datum'', ''Name'', ''Letztes Gehalt'']"
  by code_simp

text \<open>
  C9, amended. For a field of a dataclass declared with \<^verbatim>\<open>ui_field\<close>, the extracted
  definition takes every attribute from the explicit argument when one is given and from
  the inferred or default value when none is: an explicit label or type wins when it is
  not the empty string, and an absent or empty one falls back to the inferred label or
  type; an explicit \<^verbatim>\<open>required\<close>, group, order, validation or width always wins, and
  their absence gives the inferred requiredness, \<^verbatim>\<open>"default"\<close>, 0, the empty list and
  \<^verbatim>\<open>"full"\<close>; the other attributes are exactly the explicit ones, absent when not
  given.
\<close>

theorem explicit_metadata_overrides:
  assumes "distinct (map f_name (dc_fields (input_dataclass g)))"
    and "f \<in> set (dc_fields (input_dataclass g))"
    and "f_metadata f = ui_field a"
    and "d \<in> set (extract_input_fields g)" and "fd_id d = f_name f"
  shows "(\<forall>l. arg_label a = Some l \<and> l \<noteq> [] \<longrightarrow> fd_label d = l)
   \<and> (arg_label a = None \<or> arg_label a = Some [] \<longrightarrow> fd_label d = infer_label (f_name f))
   \<and> (\<forall>t. arg_typ a = Some t \<and> t \<noteq> [] \<longrightarrow> fd_type d = t)
   \<and> (arg_typ a = None \<or> arg_typ a = Some [] \<longrightarrow> fd_type d = infer_ui_type (f_type f))
   \<and> (\<forall>r. arg_required a = Some r \<longrightarrow> fd_required d = r)
   \<and> (arg_required a = None \<longrightarrow> fd_required d = is_required g (f_name f))
   \<and> (\<forall>x. arg_group a = Some x \<longrightarrow> fd_group d = x)
   \<and> (arg_group a = None \<longrightarrow> fd_group d = ''default'')
   \<and> (\<forall>n. arg_order a = Some n \<longrightarrow> fd_order d = n)
   \<and> (arg_order a = None \<longrightarrow> fd_order d = 0)
   \<and> (\<forall>v. arg_validation a = Some v \<longrightarrow> fd_validation d = validation_list v)
   \<and> (arg_validation a = None \<longrightarrow> fd_validation d = [])
   \<and> (\<forall>x. arg_width a = Some x \<longrightarrow> fd_width d = x)
   \<and> (arg_width a = None \<longrightarrow> fd_width d = ''full'')
   \<and> fd_hint d = arg_hint a \<and> fd_placeholder d = arg_placeholder a
   \<and> fd_min_value d = arg_min_value a \<and> fd_max_value d = arg_max_value a
   \<and> fd_depends_on d = arg_depends_on a \<and> fd_show_when d = arg_show_when a
   \<and> fd_options d = arg_options a \<and> fd_css_class d = arg_css_class a"
proof -
  have d: "d = field_def_of g f" using assms(1,2,4,5) by (rule extracted_is_field_def_of)
  show ?thesis
    unfolding d
    by (simp add: field_def_of_def Let_def assms(3) ui_field_def get_or_def get_default_def)
qed

theorem explicit_metadata_overrides_witness:
  "distinct (map f_name (dc_fields (input_dataclass sample_generator)))
   \<and> \<lparr>f_name = ''gehalt'', f_type = TypeObject (TUnion [TFloat, TNoneType]),
       f_metadata = ui_field (ui_args_default\<lparr>arg_label := Some ''Letztes Gehalt'',
                       arg_required := Some False, arg_group := Some ''gehalt'',
                       arg_order := Some 1\<rparr>)\<rparr>
       \<in> set (dc_fields (input_dataclass sample_generator))
   \<and> field_def_of sample_generator
        \<lparr>f_name = ''gehalt'', f_type = TypeObject (TUnion [TFloat, TNoneType]),
         f_metadata = ui_field (ui_args_default\<lparr>arg_label := Some ''Letztes Gehalt'',
                       arg_required := Some False, arg_group := Some ''gehalt'',
                       arg_order := Some 1\<rparr>)\<rparr>
       \<in> set (extract_input_fields sample_generator)
   \<and> fd_label (field_def_of sample_generator
        \<lparr>f_name = ''gehalt'', f_type = TypeObject (TUnion [TFloat, TNoneType]),
         f_metadata = ui_field (ui_args_default\<lparr>arg_label := Some ''Letztes Gehalt'',
                       arg_required := Some False, arg_group := Some ''gehalt'',
                       arg_order := Some 1\<rparr>)\<rparr>) = ''Letztes Gehalt''
   \<and> fd_required (field_def_of sample_generator
        \<lparr>f_name = ''gehalt'', f_type = TypeObject (TUnion [TFloat, TNoneType]),
         f_metadata = ui_field (ui_args_default\<lparr>arg_label := Some ''Letztes Gehalt'',
                       arg_required := Some False, arg_group := Some ''gehalt'',
                       arg_order := Some 1\<rparr>)\<rparr>) = False
   \<and> fd_width (field_def_of sample_generator
        \<lparr>f_name = ''gehalt'', f_type = TypeObject (TUnion [TFloat, TNoneType]),
         f_metadata = ui_field (ui_args_default\<lparr>arg_label := Some ''Letztes Gehalt'',
                       arg_required := Some False, arg_group := Some ''gehalt'',
                       arg_order := Some 1\<rparr>)\<rparr>) = ''full''"
proof -
  let ?g = "sample_generator"
  let ?a = "ui_args_default\<lparr>arg_label := Some ''Letztes Gehalt'',
                       arg_required := Some False, arg_group := Some ''gehalt'',
                       arg_order := Some 1\<rparr>"
  let ?f = "\<lparr>f_name = ''gehalt'', f_type = TypeObject (TUnion [TFloat, TNoneType]), f_metadata = ui_field ?a\<rparr>"
  have dc: "input_dataclass ?g = sample_dataclass" by (simp add: sample_generator_def)
  have ds: "distinct (map f_name (dc_fields (input_dataclass ?g)))"
    by (simp add: dc sample_dataclass_names)
  have m: "?f \<in> set (dc_fields (input_dataclass ?g))"
    unfolding dc by (simp add: sample_dataclass_def)
  have md: "f_metadata ?f = ui_field ?a" by simp
  have e: "field_def_of ?g ?f \<in> set (extract_input_fields ?g)"
    using m by (rule field_def_of_extracted)
  have i: "fd_id (field_def_of ?g ?f) = f_name ?f" by (rule fd_id_field_def_of)
  have al: "arg_label ?a = Some ''Letztes Gehalt'' \<and> ''Letztes Gehalt'' \<noteq> []" by simp
  have ar: "arg_required ?a = Some False" by simp
  have aw: "arg_width ?a = Some ''full''" by (simp add: ui_args_default_def)
  from explicit_metadata_overrides[OF ds m md e i] al ar aw
  have "fd_label (field_def_of ?g ?f) = ''Letztes Gehalt''
      \<and> fd_required (field_def_of ?g ?f) = False
      \<and> fd_width (field_def_of ?g ?f) = ''full''"
    by blast
  with ds m e show ?thesis by blast
qed

section \<open>Properties of the schema assembly\<close>

text \<open>
  C4, as the claim states it, fails: two runs on the same generator and the same
  registries that read different clock values give different schema objects.
\<close>

theorem schema_generated_at_counterexample:
  "fst (generate_complete_schema (sample_gen_env ''2026-01-01T10:00:00'') sample_world)
   \<noteq> fst (generate_complete_schema (sample_gen_env ''2026-01-01T10:00:01'') sample_world)"
proof
  assume "fst (generate_complete_schema (sample_gen_env ''2026-01-01T10:00:00'') sample_world)
   = fst (generate_complete_schema (sample_gen_env ''2026-01-01T10:00:01'') sample_world)"
  then have "meta_generated_at (sc_meta (fst (generate_complete_schema
                 (sample_gen_env ''2026-01-01T10:00:00'') sample_world)))
    = meta_generated_at (sc_meta (fst (generate_complete_schema
                 (sample_gen_env ''2026-01-01T10:00:01'') sample_world)))"
    by simp
  then show False
    by (simp add: generate_complete_schema_def Let_def sample_gen_env_def)
qed

text \<open>
  C4, amended. The assembly leaves the generator and both registries as they were. For
  two runs on the same generator and registries in which sets iterate in the same order,
  the two schemas are equal except for \<^verbatim>\<open>meta.generated_at\<close>, which holds the clock
  value of the run, and they are equal when the clock values are. The title, the class
  name, the configuration, the input, calculated and combined fields, the groups and the
  workflow do not depend on the clock or on the iteration order at all.
\<close>

theorem schema_reproducible_up_to_clock:
  "snd (generate_complete_schema e1 w) = w
  \<and> (set_iteration e1 = set_iteration e2 \<longrightarrow>
       fst (generate_complete_schema e1 w)
        = (fst (generate_complete_schema e2 w))
            \<lparr>sc_meta := (sc_meta (fst (generate_complete_schema e2 w)))
                          \<lparr>meta_generated_at := now_isoformat e1\<rparr>\<rparr>)
  \<and> (set_iteration e1 = set_iteration e2 \<and> now_isoformat e1 = now_isoformat e2 \<longrightarrow>
       generate_complete_schema e1 w = generate_complete_schema e2 w)
  \<and> meta_generated_at (sc_meta (fst (generate_complete_schema e1 w))) = now_isoformat e1
  \<and> meta_title (sc_meta (fst (generate_complete_schema e1 w)))
      = meta_title (sc_meta (fst (generate_complete_schema e2 w)))
  \<and> meta_class_name (sc_meta (fst (generate_complete_schema e1 w)))
      = meta_class_name (sc_meta (fst (generate_complete_schema e2 w)))
  \<and> sc_config (fst (generate_complete_schema e1 w))
      = sc_config (fst (generate_complete_schema e2 w))
  \<and> sc_input_fields (fst (generate_complete_schema e1 w))
      = sc_input_fields (fst (generate_complete_schema e2 w))
  \<and> sc_calculated_fields (fst (generate_complete_schema e1 w))
      = sc_calculated_fields (fst (generate_complete_schema e2 w))
  \<and> sc_all_fields (fst (generate_complete_schema e1 w))
      = sc_all_fields (fst (generate_complete_schema e2 w))
  \<and> sc_groups (fst (generate_complete_schema e1 w))
      = sc_groups (fst (generate_complete_schema e2 w))
  \<and> sc_workflow (fst (generate_complete_schema e1 w))
      = sc_workflow (fst (generate_complete_schema e2 w))"
  by (simp add: generate_complete_schema_def Let_def extract_validation_rules_def)

theorem schema_reproducible_up_to_clock_witness:
  "set_iteration (sample_gen_env ''2026-01-01T10:00:00'')
     = set_iteration (sample_gen_env ''2026-01-01T10:00:01'')
   \<and> snd (generate_complete_schema (sample_gen_env ''2026-01-01T10:00:00'') sample_world)
       = sample_world
   \<and> fst (generate_complete_schema (sample_gen_env ''2026-01-01T10:00:00'') sample_world)
       = (fst (generate_complete_schema (sample_gen_env ''2026-01-01T10:00:01'') sample_world))
           \<lparr>sc_meta := (sc_meta (fst (generate_complete_schema
                           (sample_gen_env ''2026-01-01T10:00:01'') sample_world)))
                         \<lparr>meta_generated_at := ''2026-01-01T10:00:00''\<rparr>\<rparr>"
proof -
  let ?e1 = "sample_gen_env ''2026-01-01T10:00:00''"
  let ?e2 = "sample_gen_env ''2026-01-01T10:00:01''"
  have h: "set_iteration ?e1 = set_iteration ?e2" by (simp add: sample_gen_env_def)
  have n: "now_isoformat ?e1 = ''2026-01-01T10:00:00''" by (simp add: sample_gen_env_def)
  from schema_reproducible_up_to_clock[of ?e1 sample_world ?e2] h
  have "snd (generate_complete_schema ?e1 sample_world) = sample_world
      \<and> fst (generate_complete_schema ?e1 sample_world)
        = (fst (generate_complete_schema ?e2 sample_world))
            \<lparr>sc_meta := (sc_meta (fst (generate_complete_schema ?e2 sample_world)))
                          \<lparr>meta_generated_at := now_isoformat ?e1\<rparr>\<rparr>"
    by blast
  with h show ?thesis unfolding n by blast
qed

end
